theory Spec2Isabelle
  imports Complex_Main "HOL-Library.Multiset" "HOL-Library.List_Lexorder" "HOL-Library.Char_ord"
begin

section \<open>JavaScript values, errors and the platform\<close>

text \<open>
  Values that come out of \<^verbatim>\<open>JSON.parse\<close> or go into a request body. An object lists
  each of its properties once. A property that is absent (\<^verbatim>\<open>undefined\<close>) is \<open>None\<close>
  of an option type throughout.
\<close>

datatype json =
    JNull
  | JBool bool
  | JNumber real
  | JString string
  | JArray "json list"
  | JObject "(string \<times> json) list"

text \<open>JavaScript's conversion to a boolean, as \<^verbatim>\<open>!x\<close>, \<^verbatim>\<open>x && y\<close> and \<^verbatim>\<open>x || y\<close> use it.\<close>

fun truthy :: "json \<Rightarrow> bool" where
  "truthy JNull = False"
| "truthy (JBool b) = b"
| "truthy (JNumber x) = (x \<noteq> 0)"
| "truthy (JString s) = (s \<noteq> [])"
| "truthy (JArray xs) = True"
| "truthy (JObject kvs) = True"

definition truthy_opt :: "json option \<Rightarrow> bool" where
  "truthy_opt v = (case v of None \<Rightarrow> False | Some x \<Rightarrow> truthy x)"

definition truthy_str :: "string option \<Rightarrow> bool" where
  "truthy_str v = (case v of None \<Rightarrow> False | Some s \<Rightarrow> s \<noteq> [])"

text \<open>
  Everything the code throws is an \<^verbatim>\<open>Error\<close> with a message: plain errors,
  the \<^verbatim>\<open>TypeError\<close> of the runtime, and \<^verbatim>\<open>HueApiError\<close> (message and status code;
  the response payload it also carries is never read).
\<close>

datatype error =
    Error string
  | TypeError string
  | HueApiError string nat

fun message :: "error \<Rightarrow> string" where
  "message (Error m) = m"
| "message (TypeError m) = m"
| "message (HueApiError m st) = m"

text \<open>
  The functions of the JavaScript platform that the code calls and the repository does
  not define. They are parameters of every operation: \<^verbatim>\<open>String.prototype.localeCompare\<close>,
  \<^verbatim>\<open>String.prototype.toLowerCase\<close>, \<^verbatim>\<open>JSON.parse\<close> (\<open>None\<close> when it throws a
  \<^verbatim>\<open>SyntaxError\<close>), \<^verbatim>\<open>JSON.stringify(v, null, 2)\<close>, \<^verbatim>\<open>path.join\<close>, \<^verbatim>\<open>path.dirname\<close>
  and \<^verbatim>\<open>new URL(u).hostname\<close> (\<open>None\<close> when the constructor throws).
\<close>

record runtime =
  localeCompare :: "string \<Rightarrow> string \<Rightarrow> int"
  toLowerCase :: "string \<Rightarrow> string"
  JSON_parse :: "string \<Rightarrow> json option"
  JSON_stringify :: "json \<Rightarrow> string"
  path_join :: "string \<Rightarrow> string \<Rightarrow> string"
  path_dirname :: "string \<Rightarrow> string"
  URL_hostname :: "string \<Rightarrow> string option"

text \<open>
  \<^verbatim>\<open>Array.prototype.sort(compare)\<close>: the language requires a stable sort, so with a
  consistent comparator the result is the stable arrangement that insertion from the
  right produces.
\<close>

fun sort_insert :: "('a \<Rightarrow> 'a \<Rightarrow> int) \<Rightarrow> 'a \<Rightarrow> 'a list \<Rightarrow> 'a list" where
  "sort_insert compare a [] = [a]"
| "sort_insert compare a (b # bs) =
     (if compare a b \<le> 0 then a # b # bs else b # sort_insert compare a bs)"

definition Array_sort :: "('a \<Rightarrow> 'a \<Rightarrow> int) \<Rightarrow> 'a list \<Rightarrow> 'a list" where
  "Array_sort compare xs = foldr (sort_insert compare) xs []"

text \<open>\<^verbatim>\<open>Array.prototype.join\<close> on strings.\<close>

fun join :: "string \<Rightarrow> string list \<Rightarrow> string" where
  "join sep [] = []"
| "join sep [x] = x"
| "join sep (x # y # ys) = x @ sep @ join sep (y # ys)"

text \<open>Decimal digits of a number, as a template literal prints a status code.\<close>

fun decimal :: "nat \<Rightarrow> string" where
  "decimal n =
     (if n < 10 then [char_of (48 + n)]
      else decimal (n div 10) @ [char_of (48 + n mod 10)])"

declare decimal.simps [simp del]

section \<open>Bridge resources, requests and responses\<close>

text \<open>
  The fields of a light or room that the service reads. A field is optional where the
  code guards the access (\<^verbatim>\<open>l.metadata?.name\<close>, \<^verbatim>\<open>room.services?.find\<close>,
  \<^verbatim>\<open>groupedLightService?.rid\<close>).
\<close>

record metadata =
  name :: "string option"

record resource_identifier =
  rid :: "string option"
  rtype :: string

record resource =
  id' :: string
  metadata :: "metadata option"
  services :: "resource_identifier list option"

text \<open>\<^verbatim>\<open>r.metadata?.name\<close>\<close>

definition metadata_name :: "resource \<Rightarrow> string option" where
  "metadata_name r = (case metadata r of None \<Rightarrow> None | Some m \<Rightarrow> name m)"

text \<open>One element of the answer of the v1 registration endpoint.\<close>

record registration_error =
  description :: "string option"

record registration_success =
  registered_username :: "string option"

record registration =
  error :: "registration_error option"
  success :: "registration_success option"

datatype verb = GET | PUT | POST

record request =
  verb :: verb
  url :: string
  application_key :: json
  body :: "json option"

text \<open>
  What axios reports for a request: a 2xx response with its payload, a response with
  another status (code and status text), no response at all, or a failure before
  sending.
\<close>

datatype 'a response =
    Response 'a
  | ErrorResponse nat string
  | NoResponse
  | SetupFailure string

text \<open>The response interceptor installed by the \<^verbatim>\<open>HueApiClient\<close> constructor.\<close>

fun interceptor :: "'a response \<Rightarrow> error + 'a" where
  "interceptor (Response d) = Inr d"
| "interceptor (ErrorResponse st statusText) =
     Inl (HueApiError (''Hue API Error: '' @ decimal st @ '' '' @ statusText) st)"
| "interceptor NoResponse = Inl (Error ''No response received from Hue Bridge'')"
| "interceptor (SetupFailure m) = Inl (Error (''Error setting up request: '' @ m))"

section \<open>The world the service runs in\<close>

text \<open>
  What the local service browser reports first: a service with its addresses, an error,
  or nothing at all (the promise of \<^verbatim>\<open>discoverBridge\<close> then never settles).
\<close>

datatype discovery =
    ServiceUp "string list"
  | BrowserError string
  | NoEvent

datatype fs_error = ENOENT | EACCES

record HueCredentials =
  username :: json
  clientKey :: json

record HueApiClient =
  baseUrl :: string
  apiKey :: json

text \<open>The fields of the \<^verbatim>\<open>PhillipsHueService\<close> object.\<close>

record PhillipsHueService =
  bridgeIp :: "string option"
  hueUsername :: "json option"
  hueClientKey :: "json option"
  apiClient :: "HueApiClient option"

text \<open>
  The process environment, the file system (contents, and the paths that cannot be read
  or written), the network (service discovery and the bridge's answer to each request),
  the requests sent so far, and the service object \<^verbatim>\<open>hueService\<close> of the server module.
  Console output is not modelled.
\<close>

record world =
  env :: "string \<Rightarrow> string option"
  homedir :: string
  files :: "string \<Rightarrow> string option"
  unreadable :: "string \<Rightarrow> bool"
  unwritable :: "string \<Rightarrow> bool"
  dnssd :: discovery
  bridge_get :: "request \<Rightarrow> resource list response"
  bridge_put :: "request \<Rightarrow> unit response"
  bridge_post :: "request \<Rightarrow> registration list response"
  requests :: "request list"
  hueService :: PhillipsHueService

text \<open>
  An asynchronous call ends by returning, by throwing, or never (\<open>Pending\<close>); it may
  change the world in each case.
\<close>

datatype 'a outcome = Returned 'a | Threw error | Pending

type_synonym 'a io = "world \<Rightarrow> 'a outcome \<times> world"

definition return :: "'a \<Rightarrow> 'a io" where
  "return x w = (Returned x, w)"

definition throw :: "error \<Rightarrow> 'a io" where
  "throw e w = (Threw e, w)"

definition await :: "'a io \<Rightarrow> ('a \<Rightarrow> 'b io) \<Rightarrow> 'b io" where
  "await m f w =
     (case m w of
        (Returned x, w') \<Rightarrow> f x w'
      | (Threw e, w') \<Rightarrow> (Threw e, w')
      | (Pending, w') \<Rightarrow> (Pending, w'))"

definition try_catch :: "'a io \<Rightarrow> (error \<Rightarrow> 'a io) \<Rightarrow> 'a io" where
  "try_catch m handler w =
     (case m w of
        (Returned x, w') \<Rightarrow> (Returned x, w')
      | (Threw e, w') \<Rightarrow> handler e w'
      | (Pending, w') \<Rightarrow> (Pending, w'))"

text \<open>The update requests among the requests sent so far.\<close>

definition updates :: "world \<Rightarrow> request list" where
  "updates w = filter (\<lambda>r. verb r = PUT) (requests w)"

subsection \<open>File system\<close>

definition fs_readFile :: "world \<Rightarrow> string \<Rightarrow> fs_error + string" where
  "fs_readFile w p =
     (if unreadable w p then Inl EACCES
      else case files w p of None \<Rightarrow> Inl ENOENT | Some content \<Rightarrow> Inr content)"

text \<open>\<^verbatim>\<open>fs.mkdir(dir, { recursive: true })\<close>: an existing directory is not an error.\<close>

definition fs_mkdir :: "string \<Rightarrow> world \<Rightarrow> (fs_error + unit) \<times> world" where
  "fs_mkdir dir w = (if unwritable w dir then (Inl EACCES, w) else (Inr (), w))"

definition fs_writeFile :: "string \<Rightarrow> string \<Rightarrow> world \<Rightarrow> (fs_error + unit) \<times> world" where
  "fs_writeFile p content w =
     (if unwritable w p then (Inl EACCES, w)
      else (Inr (), w\<lparr>files := (files w)(p := Some content)\<rparr>))"

section \<open>The resource clients (hue-api-client.ts)\<close>

text \<open>The \<^verbatim>\<open>HueApiClient\<close> constructor.\<close>

definition new_HueApiClient :: "string \<Rightarrow> json \<Rightarrow> HueApiClient" where
  "new_HueApiClient ip k = \<lparr>baseUrl = ''https://'' @ ip @ ''/clip/v2'', apiKey = k\<rparr>"

text \<open>A request that leaves the process is added to the requests sent so far.\<close>

definition send :: "request \<Rightarrow> world \<Rightarrow> world" where
  "send req w = w\<lparr>requests := requests w @ [req]\<rparr>"

text \<open>\<^verbatim>\<open>ResourceClient.getAll\<close>\<close>

definition ResourceClient_getAll :: "HueApiClient \<Rightarrow> string \<Rightarrow> resource list io" where
  "ResourceClient_getAll client endpoint w =
     (let req = \<lparr>verb = GET, url = baseUrl client @ endpoint,
                 application_key = apiKey client, body = None\<rparr>
      in case interceptor (bridge_get w req) of
           Inl e \<Rightarrow> (Threw e, send req w)
         | Inr d \<Rightarrow> (Returned d, send req w))"

text \<open>\<^verbatim>\<open>ResourceClient.update\<close>\<close>

definition ResourceClient_update :: "HueApiClient \<Rightarrow> string \<Rightarrow> string \<Rightarrow> json \<Rightarrow> unit io" where
  "ResourceClient_update client endpoint i d w =
     (let req = \<lparr>verb = PUT, url = baseUrl client @ endpoint @ ''/'' @ i,
                 application_key = apiKey client, body = Some d\<rparr>
      in case interceptor (bridge_put w req) of
           Inl e \<Rightarrow> (Threw e, send req w)
         | Inr u \<Rightarrow> (Returned (), send req w))"

text \<open>
  The body that \<^verbatim>\<open>turnOn\<close> builds, where \<^verbatim>\<open>dimming\<close> is set only for a given
  brightness, and the body that \<^verbatim>\<open>turnOff\<close> passes.
\<close>

definition turnOn_data :: "real option \<Rightarrow> json" where
  "turnOn_data brightness =
     JObject ((''on'', JObject [(''on'', JBool True)]) #
       (case brightness of
          None \<Rightarrow> []
        | Some b \<Rightarrow> [(''dimming'', JObject [(''brightness'', JNumber b)])]))"

definition turnOff_data :: json where
  "turnOff_data = JObject [(''on'', JObject [(''on'', JBool False)])]"

text \<open>\<^verbatim>\<open>LightClient.turnOn\<close>, \<^verbatim>\<open>LightClient.turnOff\<close>\<close>

definition LightClient_turnOn :: "HueApiClient \<Rightarrow> string \<Rightarrow> real option \<Rightarrow> unit io" where
  "LightClient_turnOn client i brightness =
     ResourceClient_update client ''/resource/light'' i (turnOn_data brightness)"

definition LightClient_turnOff :: "HueApiClient \<Rightarrow> string \<Rightarrow> unit io" where
  "LightClient_turnOff client i =
     ResourceClient_update client ''/resource/light'' i turnOff_data"

text \<open>\<^verbatim>\<open>GroupedLightClient.turnOn\<close>, \<^verbatim>\<open>GroupedLightClient.turnOff\<close>\<close>

definition GroupedLightClient_turnOn :: "HueApiClient \<Rightarrow> string \<Rightarrow> real option \<Rightarrow> unit io" where
  "GroupedLightClient_turnOn client i brightness =
     ResourceClient_update client ''/resource/grouped_light'' i (turnOn_data brightness)"

definition GroupedLightClient_turnOff :: "HueApiClient \<Rightarrow> string \<Rightarrow> unit io" where
  "GroupedLightClient_turnOff client i =
     ResourceClient_update client ''/resource/grouped_light'' i turnOff_data"

text \<open>
  \<^verbatim>\<open>UserClient.createUser\<close>, reached through the \<^verbatim>\<open>user\<close> getter: the
  \<^verbatim>\<open>BaseV1Client\<close> constructor takes the host name out of the v2 base URL, and the
  request goes to the v1 address.
\<close>

definition UserClient_createUser ::
  "runtime \<Rightarrow> HueApiClient \<Rightarrow> string \<Rightarrow> registration list io" where
  "UserClient_createUser rt client deviceType w =
     (case URL_hostname rt (baseUrl client) of
        None \<Rightarrow> (Threw (TypeError ''Invalid URL''), w)
      | Some host \<Rightarrow>
          (let req = \<lparr>verb = POST, url = ''http://'' @ host @ ''/api'',
                      application_key = apiKey client,
                      body = Some (JObject [(''devicetype'', JString deviceType)])\<rparr>
           in case interceptor (bridge_post w req) of
                Inl e \<Rightarrow> (Threw e, send req w)
              | Inr d \<Rightarrow> (Returned d, send req w)))"

section \<open>The control service (hue-service.ts)\<close>

text \<open>The constructor: the given arguments, else the process environment.\<close>

definition new_PhillipsHueService ::
  "(string \<times> string \<times> string) option \<Rightarrow> (string \<Rightarrow> string option) \<Rightarrow> PhillipsHueService" where
  "new_PhillipsHueService args e =
     (case args of
        Some (ip, u, k) \<Rightarrow>
          \<lparr>bridgeIp = Some ip, hueUsername = Some (JString u),
           hueClientKey = Some (JString k), apiClient = None\<rparr>
      | None \<Rightarrow>
          \<lparr>bridgeIp = e ''HUE_BRIDGE_IP'',
           hueUsername = map_option JString (e ''HUE_USERNAME''),
           hueClientKey = map_option JString (e ''HUE_CLIENT_KEY''),
           apiClient = None\<rparr>)"

definition discoverBridge :: "string option io" where
  "discoverBridge w =
     (if truthy_str (bridgeIp (hueService w)) then (Returned (bridgeIp (hueService w)), w)
      else case dnssd w of
             ServiceUp addresses \<Rightarrow>
               (let a = (case addresses of [] \<Rightarrow> None | x # xs \<Rightarrow> Some x)
                in (Returned a, w\<lparr>hueService := (hueService w)\<lparr>bridgeIp := a\<rparr>\<rparr>))
           | BrowserError m \<Rightarrow> (Threw (Error (''Failed to discover bridge: '' @ m)), w)
           | NoEvent \<Rightarrow> (Pending, w))"

text \<open>\<^verbatim>\<open>if (!this.bridgeIp) { await this.discoverBridge(); }\<close>\<close>

definition ensure_bridgeIp :: "unit io" where
  "ensure_bridgeIp w =
     (if \<not> truthy_str (bridgeIp (hueService w)) then await discoverBridge (\<lambda>a. return ()) w
      else return () w)"

definition getCredentialsPath :: "runtime \<Rightarrow> world \<Rightarrow> string" where
  "getCredentialsPath rt w =
     (if truthy_str (env w ''HUE_CREDENTIALS_PATH'') then the (env w ''HUE_CREDENTIALS_PATH'')
      else path_join rt (homedir w) ''.hue-credentials.json'')"

text \<open>
  \<^verbatim>\<open>readCredentialsFromFile\<close>. Every exception inside its \<^verbatim>\<open>try\<close> ends in
  \<^verbatim>\<open>return null\<close>: a failed read, the \<^verbatim>\<open>SyntaxError\<close> of \<^verbatim>\<open>JSON.parse\<close>, and the
  \<^verbatim>\<open>TypeError\<close> of reading a property of \<^verbatim>\<open>null\<close>. A parsed value that is not an
  object has neither property. The result carries the two properties as parsed (the cast
  to \<^verbatim>\<open>HueCredentials\<close> checks nothing).
\<close>

definition readCredentialsFromFile :: "runtime \<Rightarrow> HueCredentials option io" where
  "readCredentialsFromFile rt w =
     (let credentialsPath = getCredentialsPath rt w
      in case fs_readFile w credentialsPath of
           Inl e \<Rightarrow> (Returned None, w)
         | Inr fileContent \<Rightarrow>
             (case JSON_parse rt fileContent of
                None \<Rightarrow> (Returned None, w)
              | Some (JObject kvs) \<Rightarrow>
                  (case (map_of kvs ''username'', map_of kvs ''clientKey'') of
                     (Some u, Some k) \<Rightarrow>
                       if truthy u \<and> truthy k
                       then (Returned (Some \<lparr>username = u, clientKey = k\<rparr>), w)
                       else (Returned None, w)
                   | _ \<Rightarrow> (Returned None, w))
              | Some other \<Rightarrow> (Returned None, w)))"

text \<open>The object that \<^verbatim>\<open>JSON.stringify\<close> receives.\<close>

definition credentials_object :: "HueCredentials \<Rightarrow> json" where
  "credentials_object c = JObject [(''username'', username c), (''clientKey'', clientKey c)]"

text \<open>\<^verbatim>\<open>saveCredentialsToFile\<close>: a failure of \<^verbatim>\<open>mkdir\<close> or \<^verbatim>\<open>writeFile\<close> is caught.\<close>

definition saveCredentialsToFile :: "runtime \<Rightarrow> HueCredentials \<Rightarrow> unit io" where
  "saveCredentialsToFile rt credentials w =
     (let credentialsPath = getCredentialsPath rt w
      in case fs_mkdir (path_dirname rt credentialsPath) w of
           (Inl e, w') \<Rightarrow> (Returned (), w')
         | (Inr u, w') \<Rightarrow>
             (case fs_writeFile credentialsPath
                     (JSON_stringify rt (credentials_object credentials)) w' of
                (Inl e, w'') \<Rightarrow> (Returned (), w'')
              | (Inr u', w'') \<Rightarrow> (Returned (), w'')))"

text \<open>
  The body of the \<^verbatim>\<open>try\<close> in \<^verbatim>\<open>createNewHueUser\<close> after the request: the first
  element of the answer, its \<^verbatim>\<open>error\<close>, its \<^verbatim>\<open>success?.username\<close>.
\<close>

definition credentials_of_response :: "registration list \<Rightarrow> HueCredentials io" where
  "credentials_of_response response =
     (case response of
        [] \<Rightarrow> throw (TypeError ''Cannot read properties of undefined'')
      | d # ds \<Rightarrow>
          (case error d of
             Some e \<Rightarrow>
               throw (Error (''Failed to create Hue user: '' @
                 (case description e of None \<Rightarrow> ''undefined'' | Some t \<Rightarrow> t)))
           | None \<Rightarrow>
               (case success d of
                  None \<Rightarrow> throw (Error ''Failed to create Hue user: Unexpected response format'')
                | Some s \<Rightarrow>
                    if \<not> truthy_str (registered_username s)
                    then throw (Error ''Failed to create Hue user: Unexpected response format'')
                    else return
                      \<lparr>username = JString (the (registered_username s)),
                       clientKey = JString (the (registered_username s))\<rparr>)))"

text \<open>\<^verbatim>\<open>createNewHueUser\<close>; the ten seconds of waiting are not modelled.\<close>

definition createNewHueUser :: "runtime \<Rightarrow> HueCredentials io" where
  "createNewHueUser rt =
     await ensure_bridgeIp (\<lambda>u w.
       if \<not> truthy_str (bridgeIp (hueService w))
       then throw (Error ''Cannot create credentials: Bridge IP not available'') w
       else
         try_catch
           (await
              (UserClient_createUser rt
                 (new_HueApiClient (the (bridgeIp (hueService w))) (JString []))
                 ''hue-mcp-server#server'')
              credentials_of_response)
           (\<lambda>e. throw (Error (''Failed to create Hue user: '' @ message e))) w)"

definition getHueCredentials :: "runtime \<Rightarrow> HueCredentials io" where
  "getHueCredentials rt =
     await (readCredentialsFromFile rt) (\<lambda>existingCredentials.
       case existingCredentials of
         Some c \<Rightarrow> return c
       | None \<Rightarrow>
           await (createNewHueUser rt) (\<lambda>newCredentials.
           await (saveCredentialsToFile rt newCredentials) (\<lambda>u.
           return newCredentials)))"

text \<open>The second \<^verbatim>\<open>if\<close> of \<^verbatim>\<open>getApiClient\<close>.\<close>

definition ensure_credentials :: "runtime \<Rightarrow> unit io" where
  "ensure_credentials rt w =
     (if \<not> truthy_opt (hueUsername (hueService w)) \<or> \<not> truthy_opt (hueClientKey (hueService w))
      then await (getHueCredentials rt) (\<lambda>credentials w'.
             (Returned (),
              w'\<lparr>hueService := (hueService w')
                   \<lparr>hueUsername := Some (username credentials),
                    hueClientKey := Some (clientKey credentials)\<rparr>\<rparr>)) w
      else return () w)"

definition getApiClient :: "runtime \<Rightarrow> HueApiClient io" where
  "getApiClient rt w =
     (case apiClient (hueService w) of
        Some client \<Rightarrow> (Returned client, w)
      | None \<Rightarrow>
          await ensure_bridgeIp (\<lambda>u.
          await (ensure_credentials rt) (\<lambda>u' w'.
            if \<not> truthy_str (bridgeIp (hueService w')) \<or> \<not> truthy_opt (hueClientKey (hueService w'))
            then throw (Error
              ''Bridge IP or API key not available. Please ensure they are provided.'') w'
            else
              (let client = new_HueApiClient (the (bridgeIp (hueService w')))
                              (the (hueClientKey (hueService w')))
               in (Returned client,
                   w'\<lparr>hueService := (hueService w')\<lparr>apiClient := Some client\<rparr>\<rparr>)))) w)"

text \<open>A name between single quotes, as the error messages print it.\<close>

definition quoted :: "string \<Rightarrow> string" where
  "quoted s = CHR 0x27 # s @ [CHR 0x27]"

definition findLightByName :: "runtime \<Rightarrow> string \<Rightarrow> resource io" where
  "findLightByName rt lightName =
     await (getApiClient rt) (\<lambda>client.
     await (ResourceClient_getAll client ''/resource/light'') (\<lambda>lights.
       case find (\<lambda>l. metadata_name l = Some lightName) lights of
         None \<Rightarrow> throw (Error (''Light with name '' @ quoted lightName @ '' not found''))
       | Some light \<Rightarrow> return light))"

text \<open>The default value of the parameter: \<^verbatim>\<open>brightness = 100\<close>.\<close>

definition default_brightness :: "real option \<Rightarrow> real" where
  "default_brightness brightness = (case brightness of None \<Rightarrow> 100 | Some b \<Rightarrow> b)"

definition turnLightOn :: "runtime \<Rightarrow> string \<Rightarrow> real option \<Rightarrow> unit io" where
  "turnLightOn rt lightName brightness =
     await (findLightByName rt lightName) (\<lambda>light.
     await (getApiClient rt) (\<lambda>client.
       LightClient_turnOn client (id' light) (Some (default_brightness brightness))))"

definition turnLightOff :: "runtime \<Rightarrow> string \<Rightarrow> unit io" where
  "turnLightOff rt lightName =
     await (findLightByName rt lightName) (\<lambda>light.
     await (getApiClient rt) (\<lambda>client.
       LightClient_turnOff client (id' light)))"

text \<open>The name shown for a resource: \<^verbatim>\<open>r.metadata?.name\<close>, or when that is falsy the resource kind and the id, as in \<^verbatim>\<open>Light ${l.id}\<close>.\<close>

definition name_or :: "string \<Rightarrow> resource \<Rightarrow> string" where
  "name_or kind r =
     (if truthy_str (metadata_name r) then the (metadata_name r) else kind @ '' '' @ id' r)"

definition listAllLights :: "runtime \<Rightarrow> string list io" where
  "listAllLights rt =
     await (getApiClient rt) (\<lambda>client.
     await (ResourceClient_getAll client ''/resource/light'') (\<lambda>lights.
       return (Array_sort (localeCompare rt) (map (name_or ''Light'') lights))))"

definition findRoomByName :: "runtime \<Rightarrow> string \<Rightarrow> resource io" where
  "findRoomByName rt roomName =
     await (getApiClient rt) (\<lambda>client.
     await (ResourceClient_getAll client ''/resource/room'') (\<lambda>rooms.
       case find (\<lambda>r. map_option (toLowerCase rt) (metadata_name r)
                        = Some (toLowerCase rt roomName)) rooms of
         None \<Rightarrow> throw (Error (''Room with name '' @ quoted roomName @ '' not found''))
       | Some room \<Rightarrow> return room))"

text \<open>\<^verbatim>\<open>room.services?.find((service) => service.rtype === 'grouped_light')\<close>\<close>

definition groupedLightService :: "resource \<Rightarrow> resource_identifier option" where
  "groupedLightService room =
     (case services room of
        None \<Rightarrow> None
      | Some ss \<Rightarrow> find (\<lambda>s. rtype s = ''grouped_light'') ss)"

text \<open>\<^verbatim>\<open>groupedLightService?.rid\<close>\<close>

definition groupedLightService_rid :: "resource \<Rightarrow> string option" where
  "groupedLightService_rid room =
     (case groupedLightService room of None \<Rightarrow> None | Some s \<Rightarrow> rid s)"

definition turnOnRoomLights :: "runtime \<Rightarrow> string \<Rightarrow> real option \<Rightarrow> unit io" where
  "turnOnRoomLights rt roomName brightness =
     await (findRoomByName rt roomName) (\<lambda>room.
     await (getApiClient rt) (\<lambda>client.
       if \<not> truthy_str (groupedLightService_rid room)
       then throw (Error (''No grouped light service found for room '' @ quoted roomName))
       else GroupedLightClient_turnOn client (the (groupedLightService_rid room))
              (Some (default_brightness brightness))))"

definition turnOffRoomLights :: "runtime \<Rightarrow> string \<Rightarrow> unit io" where
  "turnOffRoomLights rt roomName =
     await (findRoomByName rt roomName) (\<lambda>room.
     await (getApiClient rt) (\<lambda>client.
       if \<not> truthy_str (groupedLightService_rid room)
       then throw (Error (''No grouped light service found for room '' @ quoted roomName))
       else GroupedLightClient_turnOff client (the (groupedLightService_rid room))))"

definition listAllRooms :: "runtime \<Rightarrow> string list io" where
  "listAllRooms rt =
     await (getApiClient rt) (\<lambda>client.
     await (ResourceClient_getAll client ''/resource/room'') (\<lambda>rooms.
       return (Array_sort (localeCompare rt) (map (name_or ''Room'') rooms))))"

section \<open>The tool handlers (index.ts)\<close>

text \<open>
  Each handler runs one service call inside \<^verbatim>\<open>try\<close> and answers with a text in
  both cases.
\<close>

definition tool_turnLightOn :: "runtime \<Rightarrow> string \<Rightarrow> string io" where
  "tool_turnLightOn rt n =
     try_catch
       (await (turnLightOn rt n None) (\<lambda>u. return (''Successfully turned on light: '' @ n)))
       (\<lambda>e. return (''Failed to turn on light: '' @ message e))"

definition tool_turnLightOff :: "runtime \<Rightarrow> string \<Rightarrow> string io" where
  "tool_turnLightOff rt n =
     try_catch
       (await (turnLightOff rt n) (\<lambda>u. return (''Successfully turned on light: '' @ n)))
       (\<lambda>e. return (''Failed to turn off light: '' @ message e))"

definition tool_listAllLights :: "runtime \<Rightarrow> string io" where
  "tool_listAllLights rt =
     try_catch
       (await (listAllLights rt) (\<lambda>lights.
          return (''The available lights are: '' @ join '', '' lights)))
       (\<lambda>e. return (''Failed to list lights: '' @ message e))"

definition tool_listAllRooms :: "runtime \<Rightarrow> string io" where
  "tool_listAllRooms rt =
     try_catch
       (await (listAllRooms rt) (\<lambda>rooms.
          return (''The available rooms are: '' @ join '', '' rooms)))
       (\<lambda>e. return (''Failed to list rooms: '' @ message e))"

definition tool_turnRoomLightsOn :: "runtime \<Rightarrow> string \<Rightarrow> real option \<Rightarrow> string io" where
  "tool_turnRoomLightsOn rt n brightness =
     try_catch
       (await (turnOnRoomLights rt n brightness) (\<lambda>u.
          return (''Successfully turned on all lights in room: '' @ n)))
       (\<lambda>e. return (''Failed to turn on room lights: '' @ message e))"

definition tool_turnRoomLightsOff :: "runtime \<Rightarrow> string \<Rightarrow> string io" where
  "tool_turnRoomLightsOff rt n =
     try_catch
       (await (turnOffRoomLights rt n) (\<lambda>u.
          return (''Successfully turned off all lights in room: '' @ n)))
       (\<lambda>e. return (''Failed to turn off room lights: '' @ message e))"

section \<open>Notions used by the properties\<close>

text \<open>
  The first two statements of every lookup and listing method: get the client, then
  list the resources of one kind.
\<close>

definition fetch :: "runtime \<Rightarrow> string \<Rightarrow> resource list io" where
  "fetch rt endpoint =
     await (getApiClient rt) (\<lambda>client. ResourceClient_getAll client endpoint)"

text \<open>An operation adds no update request, whatever the world it starts in.\<close>

definition keeps_updates :: "'a io \<Rightarrow> bool" where
  "keeps_updates m = (\<forall>w. updates (snd (m w)) = updates w)"

text \<open>The update request for a resource, and the two bodies the service sends.\<close>

definition update_request :: "HueApiClient \<Rightarrow> string \<Rightarrow> string \<Rightarrow> json \<Rightarrow> request" where
  "update_request client endpoint i d =
     \<lparr>verb = PUT, url = baseUrl client @ endpoint @ ''/'' @ i,
      application_key = apiKey client, body = Some d\<rparr>"

definition power_on :: "real \<Rightarrow> json" where
  "power_on b =
     JObject [(''on'', JObject [(''on'', JBool True)]),
              (''dimming'', JObject [(''brightness'', JNumber b)])]"

definition power_off :: json where
  "power_off = JObject [(''on'', JObject [(''on'', JBool False)])]"

text \<open>
  A comparator that \<^verbatim>\<open>sort\<close> can rely on: the signs of its answers are
  antisymmetric, and being not greater is transitive.
\<close>

definition consistent_comparator :: "('a \<Rightarrow> 'a \<Rightarrow> int) \<Rightarrow> bool" where
  "consistent_comparator compare =
     ((\<forall>a b. (compare a b < 0) = (0 < compare b a)) \<and>
      (\<forall>a b c. compare a b \<le> 0 \<longrightarrow> compare b c \<le> 0 \<longrightarrow> compare a c \<le> 0))"

text \<open>A list in which no element is greater than a later one.\<close>

definition ascending :: "('a \<Rightarrow> 'a \<Rightarrow> int) \<Rightarrow> 'a list \<Rightarrow> bool" where
  "ascending compare xs = sorted_wrt (\<lambda>a b. compare a b \<le> 0) xs"


text \<open>
  A room whose display name equals the query after \<^verbatim>\<open>toLowerCase\<close> on both sides;
  a room without a display name matches nothing.
\<close>

definition room_name_matches :: "runtime \<Rightarrow> string \<Rightarrow> resource \<Rightarrow> bool" where
  "room_name_matches rt q r =
     (\<exists>n. metadata_name r = Some n \<and> toLowerCase rt n = toLowerCase rt q)"

section \<open>A sample runtime and sample worlds\<close>

text \<open>
  Concrete inputs for the examples below. The sample runtime compares strings by
  character code, lowers ASCII letters, and knows the JSON text of the credential
  documents of the examples only; any other text does not parse.
\<close>

definition code_unit_compare :: "string \<Rightarrow> string \<Rightarrow> int" where
  "code_unit_compare a b = (if a < b then - 1 else if b < a then 1 else 0)"

definition ascii_lower :: "string \<Rightarrow> string" where
  "ascii_lower s =
     map (\<lambda>c. case map_of (zip ''ABCDEFGHIJKLMNOPQRSTUVWXYZ'' ''abcdefghijklmnopqrstuvwxyz'') c of
                 None \<Rightarrow> c
               | Some d \<Rightarrow> d) s"

definition in_quotes :: "string \<Rightarrow> string" where
  "in_quotes s = CHR 0x22 # s @ [CHR 0x22]"

definition credentials_text :: "string \<Rightarrow> string \<Rightarrow> string" where
  "credentials_text u k =
     ''{'' @ [CHR 0x0A] @ ''  '' @ in_quotes ''username'' @ '': '' @ in_quotes u @ '','' @
     [CHR 0x0A] @ ''  '' @ in_quotes ''clientKey'' @ '': '' @ in_quotes k @ [CHR 0x0A] @ ''}''"

definition sample_stringify :: "json \<Rightarrow> string" where
  "sample_stringify v =
     (case v of
        JObject [(a, JString u), (b, JString k)] \<Rightarrow>
          if a = ''username'' \<and> b = ''clientKey'' then credentials_text u k else ''null''
      | _ \<Rightarrow> ''null'')"

definition sample_parse :: "string \<Rightarrow> json option" where
  "sample_parse s =
     map_of
       [(credentials_text ''hue-user'' ''hue-key'',
           JObject [(''username'', JString ''hue-user''), (''clientKey'', JString ''hue-key'')]),
        (credentials_text [] [],
           JObject [(''username'', JString []), (''clientKey'', JString [])]),
        (''null'', JNull)] s"

definition sample_runtime :: runtime where
  "sample_runtime =
     \<lparr>localeCompare = code_unit_compare,
      toLowerCase = ascii_lower,
      JSON_parse = sample_parse,
      JSON_stringify = sample_stringify,
      path_join = (\<lambda>a b. a @ ''/'' @ b),
      path_dirname = (\<lambda>p. rev (tl (dropWhile (\<lambda>c. c \<noteq> CHR ''/'') (rev p)))),
      URL_hostname = (\<lambda>u. Some (takeWhile (\<lambda>c. c \<noteq> CHR ''/'') (drop 8 u)))\<rparr>"

definition kitchen :: resource where
  "kitchen = \<lparr>id' = ''3'', metadata = Some \<lparr>name = Some ''Kitchen''\<rparr>, services = None\<rparr>"

definition unnamed_light :: resource where
  "unnamed_light = \<lparr>id' = ''7'', metadata = None, services = None\<rparr>"

definition bath :: resource where
  "bath = \<lparr>id' = ''5'', metadata = Some \<lparr>name = Some ''Bath''\<rparr>, services = None\<rparr>"

definition office :: resource where
  "office =
     \<lparr>id' = ''r1'', metadata = Some \<lparr>name = Some ''Office''\<rparr>,
      services = Some [\<lparr>rid = Some ''d1'', rtype = ''device''\<rparr>]\<rparr>"

definition lounge :: resource where
  "lounge =
     \<lparr>id' = ''r2'', metadata = Some \<lparr>name = Some ''Lounge''\<rparr>,
      services = Some [\<lparr>rid = Some ''d2'', rtype = ''device''\<rparr>,
                       \<lparr>rid = Some ''g2'', rtype = ''grouped_light''\<rparr>]\<rparr>"

definition sample_bridge_get :: "request \<Rightarrow> resource list response" where
  "sample_bridge_get req =
     (if url req = ''https://192.168.1.2/clip/v2/resource/light''
      then Response [kitchen, unnamed_light, bath]
      else if url req = ''https://192.168.1.2/clip/v2/resource/room''
      then Response [office, lounge]
      else ErrorResponse 404 ''Not Found'')"

definition sample_env :: "string \<Rightarrow> string option" where
  "sample_env v =
     map_of [(''HUE_BRIDGE_IP'', ''192.168.1.2''), (''HUE_USERNAME'', ''hue-user''),
             (''HUE_CLIENT_KEY'', ''hue-key''), (''HUE_CREDENTIALS_PATH'', ''/etc/hue.json'')] v"

text \<open>A configured server: address and keys come from the environment.\<close>

definition sample_world :: world where
  "sample_world =
     \<lparr>env = sample_env, homedir = ''/home/hue'', files = (\<lambda>p. None),
      unreadable = (\<lambda>p. False), unwritable = (\<lambda>p. False),
      dnssd = NoEvent, bridge_get = sample_bridge_get,
      bridge_put = (\<lambda>req. Response ()),
      bridge_post = (\<lambda>req. ErrorResponse 404 ''Not Found''),
      requests = [],
      hueService = new_PhillipsHueService None sample_env\<rparr>"

text \<open>The same server on a file system that refuses every write.\<close>

definition read_only_world :: world where
  "read_only_world = sample_world\<lparr>unwritable := (\<lambda>p. True)\<rparr>"

text \<open>The same server with a credentials file that is not JSON.\<close>

definition broken_file_world :: world where
  "broken_file_world = sample_world\<lparr>files := (\<lambda>p. Some ''{username: '')\<rparr>"

text \<open>A first start: nothing configured, no credentials file, the link button pressed.\<close>

definition first_start :: world where
  "first_start =
     \<lparr>env = (\<lambda>v. None), homedir = ''/home/hue'', files = (\<lambda>p. None),
      unreadable = (\<lambda>p. False), unwritable = (\<lambda>p. False),
      dnssd = ServiceUp [''192.168.1.2''], bridge_get = sample_bridge_get,
      bridge_put = (\<lambda>req. Response ()),
      bridge_post =
        (\<lambda>req. Response
           [\<lparr>error = None, success = Some \<lparr>registered_username = Some ''abc123''\<rparr>\<rparr>]),
      requests = [],
      hueService = new_PhillipsHueService None (\<lambda>v. None)\<rparr>"

definition empty_credentials :: HueCredentials where
  "empty_credentials = \<lparr>username = JString [], clientKey = JString []\<rparr>"

definition sample_credentials :: HueCredentials where
  "sample_credentials = \<lparr>username = JString ''hue-user'', clientKey = JString ''hue-key''\<rparr>"

text \<open>
  A runtime whose \<^verbatim>\<open>localeCompare\<close> orders letters as a locale collation does: by
  the letters without their case first, and lower case before upper case where only
  the case differs. Everything else is as in the sample runtime.
\<close>

definition collation_compare :: "string \<Rightarrow> string \<Rightarrow> int" where
  "collation_compare a b =
     (if ascii_lower a < ascii_lower b then - 1
      else if ascii_lower b < ascii_lower a then 1
      else if b < a then - 1
      else if a < b then 1
      else 0)"

definition collating_runtime :: runtime where
  "collating_runtime = sample_runtime\<lparr>localeCompare := collation_compare\<rparr>"

text \<open>The configured server with four lights whose names differ in case.\<close>

definition named_light :: "string \<Rightarrow> string \<Rightarrow> resource" where
  "named_light i n = \<lparr>id' = i, metadata = Some \<lparr>name = Some n\<rparr>, services = None\<rparr>"

definition mixed_case_bridge_get :: "request \<Rightarrow> resource list response" where
  "mixed_case_bridge_get req =
     (if url req = ''https://192.168.1.2/clip/v2/resource/light''
      then Response [named_light ''1'' ''Zebra'', named_light ''2'' ''bath'',
                     named_light ''3'' ''apple'', named_light ''4'' ''Bath'']
      else sample_bridge_get req)"

definition mixed_case_world :: world where
  "mixed_case_world = sample_world\<lparr>bridge_get := mixed_case_bridge_get\<rparr>"

section \<open>Running asynchronous calls\<close>

lemma pair_fst: "fst p = a \<Longrightarrow> p = (a, snd p)"
  by (cases p) simp

lemma awaitE:
  assumes "await m f w = (Returned y, w'')"
  obtains x w' where "m w = (Returned x, w')" and "f x w' = (Returned y, w'')"
  using assms by (auto simp: await_def split: prod.splits outcome.splits)

lemma await_Returned: "m w = (Returned x, w') \<Longrightarrow> await m f w = f x w'"
  by (simp add: await_def)

lemma await_Threw: "m w = (Threw e, w') \<Longrightarrow> await m f w = (Threw e, w')"
  by (simp add: await_def)

lemma await_assoc: "await (await m f) g = await m (\<lambda>x. await (f x) g)"
  by (rule ext) (simp add: await_def split: prod.split outcome.split)

lemma try_catchE:
  assumes "try_catch m h w = (Returned y, w'')"
  obtains "m w = (Returned y, w'')"
  | e w' where "m w = (Threw e, w')" and "h e w' = (Returned y, w'')"
  using assms by (auto simp: try_catch_def split: prod.splits outcome.splits)

section \<open>Which operations send update requests\<close>

lemma keeps_updatesD: "keeps_updates m \<Longrightarrow> m w = (r, w') \<Longrightarrow> updates w' = updates w"
  by (metis keeps_updates_def snd_conv)

lemma keeps_return [simp]: "keeps_updates (return x)"
  by (simp add: keeps_updates_def return_def)

lemma keeps_throw [simp]: "keeps_updates (throw e)"
  by (simp add: keeps_updates_def throw_def)

lemma keeps_await:
  assumes "keeps_updates m" and "\<And>x. keeps_updates (f x)"
  shows "keeps_updates (await m f)"
  unfolding keeps_updates_def
proof
  fix w
  obtain r w' where mw: "m w = (r, w')" by (cases "m w")
  have u: "updates w' = updates w" using assms(1) mw by (rule keeps_updatesD)
  show "updates (snd (await m f w)) = updates w"
  proof (cases r)
    case (Returned x)
    then show ?thesis using mw u assms(2)[of x] by (simp add: await_def keeps_updates_def)
  qed (use mw u in \<open>simp_all add: await_def\<close>)
qed

lemma keeps_try_catch:
  assumes "keeps_updates m" and "\<And>e. keeps_updates (h e)"
  shows "keeps_updates (try_catch m h)"
  unfolding keeps_updates_def
proof
  fix w
  obtain r w' where mw: "m w = (r, w')" by (cases "m w")
  have u: "updates w' = updates w" using assms(1) mw by (rule keeps_updatesD)
  show "updates (snd (try_catch m h w)) = updates w"
  proof (cases r)
    case (Threw e)
    then show ?thesis using mw u assms(2)[of e] by (simp add: try_catch_def keeps_updates_def)
  qed (use mw u in \<open>simp_all add: try_catch_def\<close>)
qed

lemma updates_send: "updates (send req w) = updates w @ (if verb req = PUT then [req] else [])"
  by (simp add: updates_def send_def)

lemma keeps_getAll [simp]: "keeps_updates (ResourceClient_getAll client endpoint)"
  by (simp add: keeps_updates_def ResourceClient_getAll_def Let_def updates_send split: sum.split)

lemma keeps_createUser [simp]: "keeps_updates (UserClient_createUser rt client d)"
  by (simp add: keeps_updates_def UserClient_createUser_def Let_def updates_send
      split: sum.split option.split)

lemma keeps_discoverBridge [simp]: "keeps_updates discoverBridge"
  by (simp add: keeps_updates_def discoverBridge_def Let_def updates_def split: discovery.split)

lemma keeps_ensure_bridgeIp [simp]: "keeps_updates ensure_bridgeIp"
proof -
  have "keeps_updates (await discoverBridge (\<lambda>a. return ()))"
    by (rule keeps_await) simp_all
  then show ?thesis
    by (simp add: keeps_updates_def ensure_bridgeIp_def return_def)
qed

lemma keeps_read [simp]: "keeps_updates (readCredentialsFromFile rt)"
  by (simp add: keeps_updates_def readCredentialsFromFile_def Let_def
      split: sum.split option.split json.split)

lemma keeps_save [simp]: "keeps_updates (saveCredentialsToFile rt c)"
  by (simp add: keeps_updates_def saveCredentialsToFile_def Let_def fs_mkdir_def fs_writeFile_def
      updates_def)

lemma keeps_credentials_of_response [simp]: "keeps_updates (credentials_of_response r)"
  by (simp add: credentials_of_response_def split: list.split option.split)

lemma keeps_createNewHueUser [simp]: "keeps_updates (createNewHueUser rt)"
  unfolding createNewHueUser_def
proof (rule keeps_await)
  fix u :: unit
  have k: "\<And>ip. keeps_updates (try_catch
           (await (UserClient_createUser rt (new_HueApiClient ip (JString [])) ''hue-mcp-server#server'')
              credentials_of_response)
           (\<lambda>e. throw (Error (''Failed to create Hue user: '' @ message e))))"
    by (intro keeps_try_catch keeps_await) simp_all
  show "keeps_updates (\<lambda>w. if \<not> truthy_str (bridgeIp (hueService w))
       then throw (Error ''Cannot create credentials: Bridge IP not available'') w
       else try_catch
           (await (UserClient_createUser rt
                 (new_HueApiClient (the (bridgeIp (hueService w))) (JString []))
                 ''hue-mcp-server#server'')
              credentials_of_response)
           (\<lambda>e. throw (Error (''Failed to create Hue user: '' @ message e))) w)"
    using k by (simp add: keeps_updates_def throw_def)
qed simp

lemma keeps_getHueCredentials [simp]: "keeps_updates (getHueCredentials rt)"
  unfolding getHueCredentials_def
  by (intro keeps_await) (simp_all add: keeps_await split: option.split)

lemma keeps_ensure_credentials [simp]: "keeps_updates (ensure_credentials rt)"
proof -
  have "keeps_updates (await (getHueCredentials rt) (\<lambda>credentials w'.
             (Returned (),
              w'\<lparr>hueService := (hueService w')
                   \<lparr>hueUsername := Some (username credentials),
                    hueClientKey := Some (clientKey credentials)\<rparr>\<rparr>)))"
    by (rule keeps_await) (simp, simp add: keeps_updates_def updates_def)
  then show ?thesis
    by (simp add: keeps_updates_def ensure_credentials_def return_def)
qed

lemma keeps_getApiClient [simp]: "keeps_updates (getApiClient rt)"
proof -
  have "keeps_updates (await ensure_bridgeIp (\<lambda>u.
          await (ensure_credentials rt) (\<lambda>u' w'.
            if \<not> truthy_str (bridgeIp (hueService w')) \<or> \<not> truthy_opt (hueClientKey (hueService w'))
            then throw (Error
              ''Bridge IP or API key not available. Please ensure they are provided.'') w'
            else
              (let client = new_HueApiClient (the (bridgeIp (hueService w')))
                              (the (hueClientKey (hueService w')))
               in (Returned client,
                   w'\<lparr>hueService := (hueService w')\<lparr>apiClient := Some client\<rparr>\<rparr>)))))"
    by (intro keeps_await) (simp, simp, simp add: keeps_updates_def updates_def throw_def Let_def)
  then show ?thesis
    by (simp add: keeps_updates_def getApiClient_def split: option.split)
qed

lemma keeps_fetch [simp]: "keeps_updates (fetch rt endpoint)"
  unfolding fetch_def by (intro keeps_await) simp_all

lemma update_effect:
  "ResourceClient_update client endpoint i d w = (r, w') \<Longrightarrow>
   updates w' = updates w @
     [\<lparr>verb = PUT, url = baseUrl client @ endpoint @ ''/'' @ i,
       application_key = apiKey client, body = Some d\<rparr>]"
  by (auto simp: ResourceClient_update_def Let_def updates_send split: sum.splits)

lemma update_appends:
  "updates (snd (ResourceClient_update client endpoint i d w))
     = updates w @ [update_request client endpoint i d]"
  by (cases "ResourceClient_update client endpoint i d w")
     (simp add: update_effect update_request_def)

section \<open>The cached client\<close>

text \<open>A client that was handed out is kept in the service object.\<close>

lemma getApiClient_cached:
  assumes "getApiClient rt w = (Returned client, w')"
  shows "apiClient (hueService w') = Some client"
proof (cases "apiClient (hueService w)")
  case (Some c)
  then show ?thesis using assms by (auto simp: getApiClient_def)
next
  case None
  then have "await ensure_bridgeIp (\<lambda>u.
          await (ensure_credentials rt) (\<lambda>u' w'.
            if \<not> truthy_str (bridgeIp (hueService w')) \<or> \<not> truthy_opt (hueClientKey (hueService w'))
            then throw (Error
              ''Bridge IP or API key not available. Please ensure they are provided.'') w'
            else
              (let client = new_HueApiClient (the (bridgeIp (hueService w')))
                              (the (hueClientKey (hueService w')))
               in (Returned client,
                   w'\<lparr>hueService := (hueService w')\<lparr>apiClient := Some client\<rparr>\<rparr>)))) w
      = (Returned client, w')"
    using assms by (simp add: getApiClient_def)
  then show ?thesis
    by (elim awaitE) (auto simp: throw_def Let_def split: if_splits)
qed

lemma getApiClient_again:
  "apiClient (hueService w) = Some client \<Longrightarrow> getApiClient rt w = (Returned client, w)"
  by (simp add: getApiClient_def)

lemma getAll_hueService:
  "ResourceClient_getAll client endpoint w = (r, w') \<Longrightarrow> hueService w' = hueService w"
  by (auto simp: ResourceClient_getAll_def Let_def send_def split: sum.splits)

lemma fetch_cached:
  assumes "fetch rt endpoint w = (Returned rs, w1)"
  shows "\<exists>client. apiClient (hueService w1) = Some client"
  using assms unfolding fetch_def
  by (elim awaitE) (auto dest!: getApiClient_cached getAll_hueService)

lemma findLightByName_fetch:
  "findLightByName rt lightName =
     await (fetch rt ''/resource/light'') (\<lambda>lights.
       case find (\<lambda>l. metadata_name l = Some lightName) lights of
         None \<Rightarrow> throw (Error (''Light with name '' @ quoted lightName @ '' not found''))
       | Some light \<Rightarrow> return light)"
  by (simp add: findLightByName_def fetch_def await_assoc)

lemma findRoomByName_fetch:
  "findRoomByName rt roomName =
     await (fetch rt ''/resource/room'') (\<lambda>rooms.
       case find (\<lambda>r. map_option (toLowerCase rt) (metadata_name r)
                        = Some (toLowerCase rt roomName)) rooms of
         None \<Rightarrow> throw (Error (''Room with name '' @ quoted roomName @ '' not found''))
       | Some room \<Rightarrow> return room)"
  by (simp add: findRoomByName_def fetch_def await_assoc)

lemma room_name_matches_map:
  "(map_option (toLowerCase rt) (metadata_name r) = Some (toLowerCase rt q))
     = room_name_matches rt q r"
  by (auto simp: room_name_matches_def)

lemma findRoomByName_room_name_matches:
  "findRoomByName rt roomName =
     await (fetch rt ''/resource/room'') (\<lambda>rooms.
       case find (room_name_matches rt roomName) rooms of
         None \<Rightarrow> throw (Error (''Room with name '' @ quoted roomName @ '' not found''))
       | Some room \<Rightarrow> return room)"
proof -
  have "(\<lambda>r. map_option (toLowerCase rt) (metadata_name r) = Some (toLowerCase rt roomName))
      = room_name_matches rt roomName"
    by (rule ext) (rule room_name_matches_map)
  then show ?thesis by (simp add: findRoomByName_fetch)
qed

lemma listAllLights_fetch:
  "listAllLights rt =
     await (fetch rt ''/resource/light'') (\<lambda>lights.
       return (Array_sort (localeCompare rt) (map (name_or ''Light'') lights)))"
  by (simp add: listAllLights_def fetch_def await_assoc)

lemma listAllRooms_fetch:
  "listAllRooms rt =
     await (fetch rt ''/resource/room'') (\<lambda>rooms.
       return (Array_sort (localeCompare rt) (map (name_or ''Room'') rooms)))"
  by (simp add: listAllRooms_def fetch_def await_assoc)

lemma keeps_findLightByName [simp]: "keeps_updates (findLightByName rt n)"
  unfolding findLightByName_fetch by (intro keeps_await) (simp_all split: option.split)

lemma keeps_findRoomByName [simp]: "keeps_updates (findRoomByName rt n)"
  unfolding findRoomByName_fetch by (intro keeps_await) (simp_all split: option.split)

lemma findLightByName_cached:
  assumes "findLightByName rt n w = (Returned light, w1)"
  shows "\<exists>client. apiClient (hueService w1) = Some client"
  using assms unfolding findLightByName_fetch
  by (elim awaitE) (auto simp: return_def throw_def dest: fetch_cached split: option.splits)


section \<open>Sorting\<close>

lemma mset_sort_insert: "mset (sort_insert compare a bs) = add_mset a (mset bs)"
  by (induction bs) simp_all

lemma mset_Array_sort: "mset (Array_sort compare xs) = mset xs"
  by (induction xs) (simp_all add: Array_sort_def mset_sort_insert)

lemma set_sort_insert: "set (sort_insert compare a bs) = insert a (set bs)"
  by (induction bs) auto

lemma ascending_sort_insert:
  assumes "consistent_comparator compare" and "ascending compare bs"
  shows "ascending compare (sort_insert compare a bs)"
  using assms(2)
proof (induction bs)
  case Nil
  then show ?case by (simp add: ascending_def)
next
  case (Cons b bs)
  have total: "\<And>x y. \<not> compare x y \<le> 0 \<Longrightarrow> compare y x \<le> 0"
    using assms(1) unfolding consistent_comparator_def by (metis less_le_not_le linorder_le_cases)
  have trans: "\<And>x y z. compare x y \<le> 0 \<Longrightarrow> compare y z \<le> 0 \<Longrightarrow> compare x z \<le> 0"
    using assms(1) unfolding consistent_comparator_def by blast
  show ?case
  proof (cases "compare a b \<le> 0")
    case True
    then show ?thesis using Cons.prems trans by (auto simp: ascending_def)
  next
    case False
    then have "compare b a \<le> 0" by (rule total)
    then show ?thesis
      using False Cons by (auto simp: ascending_def set_sort_insert)
  qed
qed

lemma ascending_Array_sort:
  "consistent_comparator compare \<Longrightarrow> ascending compare (Array_sort compare xs)"
proof (induction xs)
  case Nil
  then show ?case by (simp add: Array_sort_def ascending_def)
next
  case (Cons x xs)
  then show ?case
    using ascending_sort_insert[of compare "Array_sort compare xs" x]
    by (simp add: Array_sort_def)
qed

lemma ascending_sorted:
  assumes "\<forall>a b. (compare a b \<le> 0) = (a \<le> b)"
  shows "ascending compare xs = sorted xs"
proof -
  have "(\<lambda>a b. compare a b \<le> 0) = (\<le>)"
    using assms by (intro ext) simp
  then show ?thesis by (simp add: ascending_def)
qed

lemma keyed_compare_sign:
  fixes k l :: "'k::linorder" and x y :: "'s::linorder"
  shows "((if k < l then - 1 else if l < k then 1
           else if y < x then - 1 else if x < y then 1 else (0::int)) < 0)
       = (0 < (if l < k then - 1 else if k < l then 1
               else if x < y then - 1 else if y < x then 1 else (0::int)))"
  by auto

lemma keyed_compare_le:
  fixes k l :: "'k::linorder" and x y :: "'s::linorder"
  shows "((if k < l then - 1 else if l < k then 1
           else if y < x then - 1 else if x < y then 1 else (0::int)) \<le> 0)
       = (k < l \<or> (k = l \<and> y \<le> x))"
  by auto

lemma keyed_le_trans:
  fixes k l m :: "'k::linorder" and x y z :: "'s::linorder"
  assumes "k < l \<or> (k = l \<and> y \<le> x)" and "l < m \<or> (l = m \<and> z \<le> y)"
  shows "k < m \<or> (k = m \<and> z \<le> x)"
  using assms by auto

section \<open>Evaluating the samples\<close>

lemmas sample_defs =
  sample_runtime_def sample_world_def sample_env_def sample_bridge_get_def
  new_PhillipsHueService_def kitchen_def unnamed_light_def bath_def office_def lounge_def

lemmas io_defs =
  return_def throw_def await_def try_catch_def send_def fetch_def
  getApiClient_def ensure_bridgeIp_def ensure_credentials_def discoverBridge_def
  ResourceClient_getAll_def ResourceClient_update_def new_HueApiClient_def
  truthy_str_def truthy_opt_def Let_def

lemmas credential_defs =
  saveCredentialsToFile_def readCredentialsFromFile_def getCredentialsPath_def
  fs_mkdir_def fs_writeFile_def fs_readFile_def credentials_object_def truthy_str_def Let_def

lemmas json_sample_defs =
  sample_stringify_def sample_parse_def credentials_text_def in_quotes_def

lemma sample_fetch_lights:
  "fst (fetch sample_runtime ''/resource/light'' sample_world)
     = Returned [kitchen, unnamed_light, bath]"
  by (simp add: io_defs sample_defs)

lemma sample_fetch_rooms:
  "fst (fetch sample_runtime ''/resource/room'' sample_world) = Returned [office, lounge]"
  by (simp add: io_defs sample_defs)

lemma mixed_case_fetch:
  "fst (fetch collating_runtime ''/resource/light'' mixed_case_world)
     = Returned [named_light ''1'' ''Zebra'', named_light ''2'' ''bath'',
                 named_light ''3'' ''apple'', named_light ''4'' ''Bath'']"
  by (simp add: io_defs sample_defs collating_runtime_def mixed_case_world_def
        mixed_case_bridge_get_def)

lemma mixed_case_fetch_rooms:
  "fst (fetch collating_runtime ''/resource/room'' mixed_case_world) = Returned [office, lounge]"
  by (simp add: io_defs sample_defs collating_runtime_def mixed_case_world_def
        mixed_case_bridge_get_def)

lemma code_unit_compare_consistent:
  "(\<forall>a b. (code_unit_compare a b < 0) = (0 < code_unit_compare b a)) \<and>
   (\<forall>a b c. code_unit_compare a b \<le> 0 \<longrightarrow> code_unit_compare b c \<le> 0
       \<longrightarrow> code_unit_compare a c \<le> 0)"
  by (auto simp: code_unit_compare_def split: if_splits)

lemma code_unit_compare_le: "(code_unit_compare a b \<le> 0) = (a \<le> b)"
  by (auto simp: code_unit_compare_def)

lemma collation_compare_consistent: "consistent_comparator collation_compare"
  unfolding consistent_comparator_def collation_compare_def
proof (intro conjI allI impI)
  fix a b :: string
  show "((if ascii_lower a < ascii_lower b then - 1
          else if ascii_lower b < ascii_lower a then 1
          else if b < a then - 1 else if a < b then 1 else (0::int)) < 0)
      = (0 < (if ascii_lower b < ascii_lower a then - 1
              else if ascii_lower a < ascii_lower b then 1
              else if a < b then - 1 else if b < a then 1 else (0::int)))"
    by (rule keyed_compare_sign)
next
  fix a b c :: string
  assume "(if ascii_lower a < ascii_lower b then - 1
          else if ascii_lower b < ascii_lower a then 1
          else if b < a then - 1 else if a < b then 1 else (0::int)) \<le> 0"
    and "(if ascii_lower b < ascii_lower c then - 1
          else if ascii_lower c < ascii_lower b then 1
          else if c < b then - 1 else if b < c then 1 else (0::int)) \<le> 0"
  then have ab: "ascii_lower a < ascii_lower b \<or> (ascii_lower a = ascii_lower b \<and> b \<le> a)"
    and bc: "ascii_lower b < ascii_lower c \<or> (ascii_lower b = ascii_lower c \<and> c \<le> b)"
    unfolding keyed_compare_le by blast+
  have "ascii_lower a < ascii_lower c \<or> (ascii_lower a = ascii_lower c \<and> c \<le> a)"
    using ab bc by (rule keyed_le_trans)
  then show "(if ascii_lower a < ascii_lower c then - 1
          else if ascii_lower c < ascii_lower a then 1
          else if c < a then - 1 else if a < c then 1 else (0::int)) \<le> 0"
    unfolding keyed_compare_le .
qed

lemma lower_examples:
  "ascii_lower ''oFFICE'' = ''office''" "ascii_lower ''Office'' = ''office''"
  "ascii_lower ''Lounge'' = ''lounge''" "ascii_lower ''Attic'' = ''attic''"
  by (simp_all add: ascii_lower_def)

lemma sample_room_matches:
  "room_name_matches sample_runtime ''oFFICE'' office"
  "\<not> room_name_matches sample_runtime ''oFFICE'' lounge"
  "\<not> room_name_matches sample_runtime ''lOUNGE'' office"
  "room_name_matches sample_runtime ''lOUNGE'' lounge"
  "\<not> room_name_matches sample_runtime ''Attic'' office"
  "\<not> room_name_matches sample_runtime ''Attic'' lounge"
  by (simp_all add: room_name_matches_def metadata_name_def office_def lounge_def
        sample_runtime_def ascii_lower_def)

lemma sample_turnLightOff:
  "fst (turnLightOff sample_runtime ''Kitchen'' sample_world) = Returned ()"
  by (simp add: turnLightOff_def findLightByName_def LightClient_turnOff_def io_defs sample_defs
        metadata_name_def)

lemma sample_findLight:
  "fst (findLightByName sample_runtime ''Kitchen'' sample_world) = Returned kitchen"
  by (simp add: findLightByName_def io_defs sample_defs metadata_name_def)

lemma sample_client:
  "apiClient (hueService (snd (findLightByName sample_runtime ''Kitchen'' sample_world)))
     = Some (new_HueApiClient ''192.168.1.2'' (JString ''hue-key''))"
  by (simp add: findLightByName_def io_defs sample_defs metadata_name_def)


section \<open>Looking up lights and rooms\<close>

text \<open>
  A light without a display name is listed under the synthetic name, here
  \<^verbatim>\<open>Light 7\<close>, but \<^verbatim>\<open>findLightByName\<close> does not find it under that name: the
  lookup compares the bridge's \<^verbatim>\<open>metadata.name\<close> only.
\<close>

theorem findLightByName_misses_listed_name:
  "fst (listAllLights sample_runtime sample_world) = Returned [''Bath'', ''Kitchen'', ''Light 7'']
   \<and> fst (findLightByName sample_runtime ''Light 7'' sample_world)
       = Threw (Error (''Light with name '' @ quoted ''Light 7'' @ '' not found''))"
  by (simp add: listAllLights_def findLightByName_def io_defs sample_defs Array_sort_def
        name_or_def metadata_name_def code_unit_compare_def quoted_def)

text \<open>
  Claim C1, amended. For every fetched light list and every query name,
  \<^verbatim>\<open>findLightByName\<close> returns the first light of the list whose display name as the
  bridge sent it is present and equals the query exactly (case-sensitive); a light
  without a display name is never found, under no name. It fails with the error
  \<^verbatim>\<open>Light with name '...' not found\<close> when no light has that display name.
\<close>

theorem findLightByName_first_exact_match:
  assumes "fetch rt ''/resource/light'' w = (Returned lights, w1)"
  shows "((\<exists>l \<in> set lights. metadata_name l = Some q) \<longrightarrow>
            (\<exists>i < length lights.
               findLightByName rt q w = (Returned (lights ! i), w1)
               \<and> metadata_name (lights ! i) = Some q
               \<and> (\<forall>j < i. metadata_name (lights ! j) \<noteq> Some q)))
       \<and> ((\<forall>l \<in> set lights. metadata_name l \<noteq> Some q) \<longrightarrow>
            findLightByName rt q w
              = (Threw (Error (''Light with name '' @ quoted q @ '' not found'')), w1))"
proof (intro conjI impI)
  assume "\<exists>l \<in> set lights. metadata_name l = Some q"
  then obtain l where l: "find (\<lambda>l. metadata_name l = Some q) lights = Some l"
    by (cases "find (\<lambda>l. metadata_name l = Some q) lights") (auto simp: find_None_iff)
  then have run: "findLightByName rt q w = (Returned l, w1)"
    using assms by (simp add: findLightByName_fetch await_Returned return_def)
  from l obtain i where "i < length lights" "metadata_name (lights ! i) = Some q"
    "l = lights ! i" "\<forall>j < i. metadata_name (lights ! j) \<noteq> Some q"
    unfolding find_Some_iff by blast
  then show "\<exists>i < length lights.
               findLightByName rt q w = (Returned (lights ! i), w1)
               \<and> metadata_name (lights ! i) = Some q
               \<and> (\<forall>j < i. metadata_name (lights ! j) \<noteq> Some q)"
    using run by blast
next
  assume "\<forall>l \<in> set lights. metadata_name l \<noteq> Some q"
  then have "find (\<lambda>l. metadata_name l = Some q) lights = None"
    by (simp add: find_None_iff)
  then show "findLightByName rt q w
              = (Threw (Error (''Light with name '' @ quoted q @ '' not found'')), w1)"
    using assms by (simp add: findLightByName_fetch await_Returned throw_def)
qed

theorem findLightByName_first_exact_match_witness:
  "fst (fetch sample_runtime ''/resource/light'' sample_world) = Returned [kitchen, unnamed_light, bath]
   \<and> (\<exists>l. fst (findLightByName sample_runtime ''Kitchen'' sample_world) = Returned l
          \<and> metadata_name l = Some ''Kitchen'')
   \<and> fst (findLightByName sample_runtime ''kitchen'' sample_world)
       = Threw (Error (''Light with name '' @ quoted ''kitchen'' @ '' not found''))"
proof -
  note t = findLightByName_first_exact_match[OF pair_fst[OF sample_fetch_lights]]
  have "\<exists>l \<in> set [kitchen, unnamed_light, bath]. metadata_name l = Some ''Kitchen''"
    by (simp add: metadata_name_def kitchen_def)
  then have "\<exists>i < length [kitchen, unnamed_light, bath].
      findLightByName sample_runtime ''Kitchen'' sample_world
        = (Returned ([kitchen, unnamed_light, bath] ! i),
           snd (fetch sample_runtime ''/resource/light'' sample_world))
      \<and> metadata_name ([kitchen, unnamed_light, bath] ! i) = Some ''Kitchen''
      \<and> (\<forall>j < i. metadata_name ([kitchen, unnamed_light, bath] ! j) \<noteq> Some ''Kitchen'')"
    by (rule t[of "''Kitchen''", THEN conjunct1, THEN mp])
  then obtain i where
    "findLightByName sample_runtime ''Kitchen'' sample_world
        = (Returned ([kitchen, unnamed_light, bath] ! i),
           snd (fetch sample_runtime ''/resource/light'' sample_world))"
    "metadata_name ([kitchen, unnamed_light, bath] ! i) = Some ''Kitchen''"
    by (elim exE conjE)
  then have a: "\<exists>l. fst (findLightByName sample_runtime ''Kitchen'' sample_world) = Returned l
          \<and> metadata_name l = Some ''Kitchen''"
    by (intro exI[of _ "[kitchen, unnamed_light, bath] ! i"]) simp
  have "\<forall>l \<in> set [kitchen, unnamed_light, bath]. metadata_name l \<noteq> Some ''kitchen''"
    by (simp add: metadata_name_def kitchen_def unnamed_light_def bath_def)
  then have b: "fst (findLightByName sample_runtime ''kitchen'' sample_world)
       = Threw (Error (''Light with name '' @ quoted ''kitchen'' @ '' not found''))"
    using t[of "''kitchen''", THEN conjunct2, THEN mp] by simp
  show ?thesis using a b sample_fetch_lights by simp
qed

text \<open>
  Claim C4. For every fetched room list and every query name, \<^verbatim>\<open>findRoomByName\<close>
  succeeds exactly when some room has a display name that equals the query ignoring
  letter case, that is after \<^verbatim>\<open>toLowerCase\<close> on the stored name and on the query;
  it then returns the first such room of the list. Otherwise it fails with the error
  \<^verbatim>\<open>Room with name '...' not found\<close>.
\<close>

theorem findRoomByName_case_insensitive:
  assumes "fetch rt ''/resource/room'' w = (Returned rooms, w1)"
  shows "((\<exists>r \<in> set rooms. room_name_matches rt q r) \<longrightarrow>
            (\<exists>i < length rooms.
               findRoomByName rt q w = (Returned (rooms ! i), w1)
               \<and> room_name_matches rt q (rooms ! i)
               \<and> (\<forall>j < i. \<not> room_name_matches rt q (rooms ! j))))
       \<and> ((\<exists>room. fst (findRoomByName rt q w) = Returned room)
            \<longleftrightarrow> (\<exists>r \<in> set rooms. room_name_matches rt q r))
       \<and> ((\<forall>r \<in> set rooms. \<not> room_name_matches rt q r) \<longrightarrow>
            findRoomByName rt q w
              = (Threw (Error (''Room with name '' @ quoted q @ '' not found'')), w1))"
proof -
  let ?P = "room_name_matches rt q"
  have found: "\<exists>i < length rooms.
               findRoomByName rt q w = (Returned (rooms ! i), w1)
               \<and> ?P (rooms ! i) \<and> (\<forall>j < i. \<not> ?P (rooms ! j))"
    if "\<exists>r \<in> set rooms. ?P r"
  proof -
    from that obtain r where r: "find ?P rooms = Some r"
      by (cases "find ?P rooms") (auto simp: find_None_iff)
    then have run: "findRoomByName rt q w = (Returned r, w1)"
      using assms
      by (simp add: findRoomByName_room_name_matches
            await_Returned[where m="fetch rt ''/resource/room''"] return_def)
    from r obtain i where "i < length rooms" "?P (rooms ! i)" "r = rooms ! i"
      "\<forall>j < i. \<not> ?P (rooms ! j)"
      unfolding find_Some_iff by blast
    then show ?thesis using run by blast
  qed
  have missing: "findRoomByName rt q w
              = (Threw (Error (''Room with name '' @ quoted q @ '' not found'')), w1)"
    if "\<forall>r \<in> set rooms. \<not> ?P r"
  proof -
    from that have "find ?P rooms = None" by (simp add: find_None_iff)
    then show ?thesis
      using assms
      by (simp add: findRoomByName_room_name_matches
            await_Returned[where m="fetch rt ''/resource/room''"] throw_def)
  qed
  have iff: "(\<exists>room. fst (findRoomByName rt q w) = Returned room)
            \<longleftrightarrow> (\<exists>r \<in> set rooms. ?P r)"
  proof
    assume a: "\<exists>room. fst (findRoomByName rt q w) = Returned room"
    show "\<exists>r \<in> set rooms. ?P r"
    proof (rule ccontr)
      assume "\<not> (\<exists>r \<in> set rooms. ?P r)"
      then have "\<forall>r \<in> set rooms. \<not> ?P r" by blast
      then have "fst (findRoomByName rt q w)
          = Threw (Error (''Room with name '' @ quoted q @ '' not found''))"
        by (simp add: missing)
      with a show False by simp
    qed
  next
    assume "\<exists>r \<in> set rooms. ?P r"
    then obtain i where "findRoomByName rt q w = (Returned (rooms ! i), w1)"
      using found by blast
    then have "fst (findRoomByName rt q w) = Returned (rooms ! i)" by simp
    then show "\<exists>room. fst (findRoomByName rt q w) = Returned room" by (rule exI)
  qed
  show ?thesis
    using found missing iff by (intro conjI impI)
qed

theorem findRoomByName_case_insensitive_witness:
  "fst (fetch sample_runtime ''/resource/room'' sample_world) = Returned [office, lounge]
   \<and> fst (findRoomByName sample_runtime ''oFFICE'' sample_world) = Returned office
   \<and> fst (findRoomByName sample_runtime ''lOUNGE'' sample_world) = Returned lounge
   \<and> fst (findRoomByName sample_runtime ''Attic'' sample_world)
       = Threw (Error (''Room with name '' @ quoted ''Attic'' @ '' not found''))"
proof -
  note t = findRoomByName_case_insensitive[OF pair_fst[OF sample_fetch_rooms]]
  have pick: "fst (findRoomByName sample_runtime q sample_world) = Returned r"
    if "\<exists>x \<in> set [office, lounge]. room_name_matches sample_runtime q x"
      and "\<And>x. x \<in> set [office, lounge] \<Longrightarrow> room_name_matches sample_runtime q x \<Longrightarrow> x = r"
    for q r
  proof -
    from t[of q, THEN conjunct1, THEN mp, OF that(1)] obtain i where
      i: "i < length [office, lounge]"
      "findRoomByName sample_runtime q sample_world
         = (Returned ([office, lounge] ! i), snd (fetch sample_runtime ''/resource/room'' sample_world))"
      "room_name_matches sample_runtime q ([office, lounge] ! i)"
      by (elim exE conjE)
    have "[office, lounge] ! i \<in> set [office, lounge]"
      using i(1) by (rule nth_mem)
    then have "[office, lounge] ! i = r" using i(3) by (rule that(2))
    then show ?thesis using i(2) by simp
  qed
  have a: "fst (findRoomByName sample_runtime ''oFFICE'' sample_world) = Returned office"
    by (rule pick) (auto simp: sample_room_matches)
  have b: "fst (findRoomByName sample_runtime ''lOUNGE'' sample_world) = Returned lounge"
    by (rule pick) (auto simp: sample_room_matches)
  have "\<forall>r \<in> set [office, lounge]. \<not> room_name_matches sample_runtime ''Attic'' r"
    by (simp add: sample_room_matches)
  then have c: "fst (findRoomByName sample_runtime ''Attic'' sample_world)
       = Threw (Error (''Room with name '' @ quoted ''Attic'' @ '' not found''))"
    using t[of "''Attic''", THEN conjunct2, THEN conjunct2, THEN mp] by simp
  show ?thesis using a b c sample_fetch_rooms by (intro conjI)
qed

section \<open>Listing\<close>

text \<open>
  The names are sorted with \<^verbatim>\<open>localeCompare\<close>, a collation, and a collation is
  not the lexicographic order of the strings: with lights named Zebra, bath, apple and
  Bath the list comes back as apple, bath, Bath, Zebra, where lexicographic order puts
  Bath and Zebra before apple.
\<close>

theorem listAll_not_lexicographic:
  "fst (listAllLights collating_runtime mixed_case_world)
     = Returned [''apple'', ''bath'', ''Bath'', ''Zebra'']
   \<and> \<not> sorted [''apple'', ''bath'', ''Bath'', ''Zebra'']"
  by (simp add: listAllLights_def io_defs sample_defs Array_sort_def name_or_def
        metadata_name_def collation_compare_def collating_runtime_def mixed_case_world_def
        mixed_case_bridge_get_def
        named_light_def ascii_lower_def)

text \<open>
  Claim C3, amended. Whatever the order in which the bridge returns the lights (the
  rooms), \<^verbatim>\<open>listAllLights\<close> (\<^verbatim>\<open>listAllRooms\<close>) returns their names, each once per
  resource, in ascending order of the comparison the code sorts with,
  \<^verbatim>\<open>localeCompare\<close>, provided that comparison is consistent. The list is in
  ascending lexicographic order when \<^verbatim>\<open>localeCompare\<close> agrees with the
  lexicographic comparison of strings.
\<close>

theorem listAll_ascending:
  assumes "consistent_comparator (localeCompare rt)"
    and "fetch rt ''/resource/light'' w = (Returned lights, w1)"
    and "fetch rt ''/resource/room'' v = (Returned rooms, v1)"
  shows "(\<exists>names. listAllLights rt w = (Returned names, w1)
            \<and> ascending (localeCompare rt) names
            \<and> mset names = mset (map (name_or ''Light'') lights)
            \<and> ((\<forall>a b. (localeCompare rt a b \<le> 0) = (a \<le> b)) \<longrightarrow> sorted names))
       \<and> (\<exists>names. listAllRooms rt v = (Returned names, v1)
            \<and> ascending (localeCompare rt) names
            \<and> mset names = mset (map (name_or ''Room'') rooms)
            \<and> ((\<forall>a b. (localeCompare rt a b \<le> 0) = (a \<le> b)) \<longrightarrow> sorted names))"
proof -
  let ?ls = "Array_sort (localeCompare rt) (map (name_or ''Light'') lights)"
  let ?rs = "Array_sort (localeCompare rt) (map (name_or ''Room'') rooms)"
  have l: "listAllLights rt w = (Returned ?ls, w1)"
    using assms(2) by (simp add: listAllLights_fetch await_Returned return_def)
  have r: "listAllRooms rt v = (Returned ?rs, v1)"
    using assms(3) by (simp add: listAllRooms_fetch await_Returned return_def)
  have al: "ascending (localeCompare rt) ?ls" and ar: "ascending (localeCompare rt) ?rs"
    using assms(1) by (rule ascending_Array_sort)+
  have sl: "(\<forall>a b. (localeCompare rt a b \<le> 0) = (a \<le> b)) \<longrightarrow> sorted ?ls"
    using al ascending_sorted[of "localeCompare rt" ?ls] by blast
  have sr: "(\<forall>a b. (localeCompare rt a b \<le> 0) = (a \<le> b)) \<longrightarrow> sorted ?rs"
    using ar ascending_sorted[of "localeCompare rt" ?rs] by blast
  show ?thesis
  proof (rule conjI)
    show "\<exists>names. listAllLights rt w = (Returned names, w1)
            \<and> ascending (localeCompare rt) names
            \<and> mset names = mset (map (name_or ''Light'') lights)
            \<and> ((\<forall>a b. (localeCompare rt a b \<le> 0) = (a \<le> b)) \<longrightarrow> sorted names)"
      using l al sl mset_Array_sort[of "localeCompare rt" "map (name_or ''Light'') lights"]
      by (intro exI[of _ ?ls] conjI)
  next
    show "\<exists>names. listAllRooms rt v = (Returned names, v1)
            \<and> ascending (localeCompare rt) names
            \<and> mset names = mset (map (name_or ''Room'') rooms)
            \<and> ((\<forall>a b. (localeCompare rt a b \<le> 0) = (a \<le> b)) \<longrightarrow> sorted names)"
      using r ar sr mset_Array_sort[of "localeCompare rt" "map (name_or ''Room'') rooms"]
      by (intro exI[of _ ?rs] conjI)
  qed
qed

theorem listAll_ascending_witness:
  "consistent_comparator (localeCompare sample_runtime)
   \<and> fst (listAllLights sample_runtime sample_world) = Returned [''Bath'', ''Kitchen'', ''Light 7'']
   \<and> sorted [''Bath'', ''Kitchen'', ''Light 7'']
   \<and> fst (listAllRooms sample_runtime sample_world) = Returned [''Lounge'', ''Office'']
   \<and> sorted [''Lounge'', ''Office'']
   \<and> consistent_comparator (localeCompare collating_runtime)
   \<and> fst (listAllLights collating_runtime mixed_case_world)
       = Returned [''apple'', ''bath'', ''Bath'', ''Zebra'']
   \<and> ascending (localeCompare collating_runtime) [''apple'', ''bath'', ''Bath'', ''Zebra'']"
proof -
  have c: "consistent_comparator (localeCompare sample_runtime)"
    using code_unit_compare_consistent
    by (simp add: consistent_comparator_def sample_runtime_def)
  have x: "\<forall>a b. (localeCompare sample_runtime a b \<le> 0) = (a \<le> b)"
    by (simp add: sample_runtime_def code_unit_compare_le)
  have l: "fst (listAllLights sample_runtime sample_world) = Returned [''Bath'', ''Kitchen'', ''Light 7'']"
    by (simp add: listAllLights_def io_defs sample_defs Array_sort_def name_or_def
        metadata_name_def code_unit_compare_def)
  have r: "fst (listAllRooms sample_runtime sample_world) = Returned [''Lounge'', ''Office'']"
    by (simp add: listAllRooms_def io_defs sample_defs Array_sort_def name_or_def
        metadata_name_def code_unit_compare_def)
  note t = listAll_ascending[OF c pair_fst[OF sample_fetch_lights] pair_fst[OF sample_fetch_rooms]]
  from t obtain ls where "listAllLights sample_runtime sample_world
        = (Returned ls, snd (fetch sample_runtime ''/resource/light'' sample_world))"
    and "(\<forall>a b. (localeCompare sample_runtime a b \<le> 0) = (a \<le> b)) \<longrightarrow> sorted ls"
    by (elim conjE exE)
  then have sl: "sorted [''Bath'', ''Kitchen'', ''Light 7'']"
    using x l by simp
  from t obtain rs where "listAllRooms sample_runtime sample_world
        = (Returned rs, snd (fetch sample_runtime ''/resource/room'' sample_world))"
    and "(\<forall>a b. (localeCompare sample_runtime a b \<le> 0) = (a \<le> b)) \<longrightarrow> sorted rs"
    by (elim conjE exE)
  then have sr: "sorted [''Lounge'', ''Office'']"
    using x r by simp
  have d: "consistent_comparator (localeCompare collating_runtime)"
    using collation_compare_consistent by (simp add: collating_runtime_def)
  have m: "fst (listAllLights collating_runtime mixed_case_world)
       = Returned [''apple'', ''bath'', ''Bath'', ''Zebra'']"
    by (simp add: listAllLights_def io_defs sample_defs Array_sort_def name_or_def
        metadata_name_def collation_compare_def collating_runtime_def mixed_case_world_def
        mixed_case_bridge_get_def
        named_light_def ascii_lower_def)
  note u = listAll_ascending[OF d pair_fst[OF mixed_case_fetch] pair_fst[OF mixed_case_fetch_rooms]]
  from u obtain ms where "listAllLights collating_runtime mixed_case_world
        = (Returned ms, snd (fetch collating_runtime ''/resource/light'' mixed_case_world))"
    and "ascending (localeCompare collating_runtime) ms"
    by (elim conjE exE)
  then have a: "ascending (localeCompare collating_runtime) [''apple'', ''bath'', ''Bath'', ''Zebra'']"
    using m by simp
  show ?thesis
    using c l sl r sr d m a by (intro conjI)
qed

section \<open>Switching lights and rooms\<close>

text \<open>
  Claim C5. For every light that the name resolves to, \<^verbatim>\<open>turnLightOn(name, b)\<close> sends
  exactly one update request, for that light, whose body sets power on and brightness
  \<open>b\<close>; \<^verbatim>\<open>turnLightOff(name)\<close> sends exactly one update request, whose body sets
  power off and has no brightness.
\<close>

theorem turnLight_one_update:
  assumes "findLightByName rt lightName w = (Returned light, w1)"
  shows "\<exists>client. apiClient (hueService w1) = Some client
     \<and> updates (snd (turnLightOn rt lightName (Some b) w))
         = updates w @ [update_request client ''/resource/light'' (id' light) (power_on b)]
     \<and> updates (snd (turnLightOff rt lightName w))
         = updates w @ [update_request client ''/resource/light'' (id' light) power_off]"
proof -
  obtain client where c: "apiClient (hueService w1) = Some client"
    using findLightByName_cached[OF assms] by blast
  have u: "updates w1 = updates w"
    using keeps_updatesD[OF keeps_findLightByName assms] .
  have on: "turnLightOn rt lightName (Some b) w
      = ResourceClient_update client ''/resource/light'' (id' light) (power_on b) w1"
    by (simp add: turnLightOn_def await_Returned[where m="findLightByName rt lightName", OF assms]
          await_Returned[where m="getApiClient rt", OF getApiClient_again[OF c]]
          LightClient_turnOn_def turnOn_data_def power_on_def default_brightness_def)
  have off: "turnLightOff rt lightName w
      = ResourceClient_update client ''/resource/light'' (id' light) power_off w1"
    by (simp add: turnLightOff_def await_Returned[where m="findLightByName rt lightName", OF assms]
          await_Returned[where m="getApiClient rt", OF getApiClient_again[OF c]]
          LightClient_turnOff_def turnOff_data_def power_off_def)
  show ?thesis
    using c by (simp add: on off update_appends u)
qed

theorem turnLight_one_update_witness:
  "fst (findLightByName sample_runtime ''Kitchen'' sample_world) = Returned kitchen
   \<and> updates (snd (turnLightOn sample_runtime ''Kitchen'' (Some 40) sample_world))
       = [\<lparr>verb = PUT, url = ''https://192.168.1.2/clip/v2/resource/light/3'',
           application_key = JString ''hue-key'',
           body = Some (JObject [(''on'', JObject [(''on'', JBool True)]),
                                 (''dimming'', JObject [(''brightness'', JNumber 40)])])\<rparr>]
   \<and> updates (snd (turnLightOff sample_runtime ''Kitchen'' sample_world))
       = [\<lparr>verb = PUT, url = ''https://192.168.1.2/clip/v2/resource/light/3'',
           application_key = JString ''hue-key'',
           body = Some (JObject [(''on'', JObject [(''on'', JBool False)])])\<rparr>]"
proof -
  have e: "updates sample_world = []"
    by (simp add: updates_def sample_world_def)
  show ?thesis
    using turnLight_one_update[OF pair_fst[OF sample_findLight], of 40] sample_findLight
    by (simp add: sample_client e update_request_def power_on_def power_off_def
          new_HueApiClient_def kitchen_def)
qed




text \<open>
  Claim C9. When the query matches no light (no room) of the fetched list, turning
  the light (the room's lights) on or off fails with the not-found error of the lookup
  and sends no update request.
\<close>

theorem no_match_no_update:
  "(fetch rt ''/resource/light'' w = (Returned lights, w1)
      \<and> (\<forall>l \<in> set lights. metadata_name l \<noteq> Some n) \<longrightarrow>
        fst (turnLightOn rt n brightness w)
          = Threw (Error (''Light with name '' @ quoted n @ '' not found''))
      \<and> updates (snd (turnLightOn rt n brightness w)) = updates w
      \<and> fst (turnLightOff rt n w)
          = Threw (Error (''Light with name '' @ quoted n @ '' not found''))
      \<and> updates (snd (turnLightOff rt n w)) = updates w)
   \<and> (fetch rt ''/resource/room'' w = (Returned rooms, w2)
      \<and> (\<forall>r \<in> set rooms. map_option (toLowerCase rt) (metadata_name r)
                              \<noteq> Some (toLowerCase rt n)) \<longrightarrow>
        fst (turnOnRoomLights rt n brightness w)
          = Threw (Error (''Room with name '' @ quoted n @ '' not found''))
      \<and> updates (snd (turnOnRoomLights rt n brightness w)) = updates w
      \<and> fst (turnOffRoomLights rt n w)
          = Threw (Error (''Room with name '' @ quoted n @ '' not found''))
      \<and> updates (snd (turnOffRoomLights rt n w)) = updates w)"
proof (rule conjI; rule impI)
  assume a: "fetch rt ''/resource/light'' w = (Returned lights, w1)
      \<and> (\<forall>l \<in> set lights. metadata_name l \<noteq> Some n)"
  then have "find (\<lambda>l. metadata_name l = Some n) lights = None"
    unfolding find_None_iff by blast
  then have f: "findLightByName rt n w
      = (Threw (Error (''Light with name '' @ quoted n @ '' not found'')), w1)"
    using a by (simp add: findLightByName_fetch
        await_Returned[where m="fetch rt ''/resource/light''"] throw_def)
  have u: "updates w1 = updates w"
    using keeps_updatesD[OF keeps_findLightByName f] .
  have on: "turnLightOn rt n brightness w
      = (Threw (Error (''Light with name '' @ quoted n @ '' not found'')), w1)"
    unfolding turnLightOn_def using f by (rule await_Threw)
  have off: "turnLightOff rt n w
      = (Threw (Error (''Light with name '' @ quoted n @ '' not found'')), w1)"
    unfolding turnLightOff_def using f by (rule await_Threw)
  show "fst (turnLightOn rt n brightness w)
          = Threw (Error (''Light with name '' @ quoted n @ '' not found''))
      \<and> updates (snd (turnLightOn rt n brightness w)) = updates w
      \<and> fst (turnLightOff rt n w)
          = Threw (Error (''Light with name '' @ quoted n @ '' not found''))
      \<and> updates (snd (turnLightOff rt n w)) = updates w"
    by (simp add: on off u)
next
  assume a: "fetch rt ''/resource/room'' w = (Returned rooms, w2)
      \<and> (\<forall>r \<in> set rooms. map_option (toLowerCase rt) (metadata_name r)
                              \<noteq> Some (toLowerCase rt n))"
  then have "find (\<lambda>r. map_option (toLowerCase rt) (metadata_name r)
                          = Some (toLowerCase rt n)) rooms = None"
    unfolding find_None_iff by blast
  then have f: "findRoomByName rt n w
      = (Threw (Error (''Room with name '' @ quoted n @ '' not found'')), w2)"
    using a by (simp add: findRoomByName_fetch
        await_Returned[where m="fetch rt ''/resource/room''"] throw_def)
  have u: "updates w2 = updates w"
    using keeps_updatesD[OF keeps_findRoomByName f] .
  have on: "turnOnRoomLights rt n brightness w
      = (Threw (Error (''Room with name '' @ quoted n @ '' not found'')), w2)"
    unfolding turnOnRoomLights_def using f by (rule await_Threw)
  have off: "turnOffRoomLights rt n w
      = (Threw (Error (''Room with name '' @ quoted n @ '' not found'')), w2)"
    unfolding turnOffRoomLights_def using f by (rule await_Threw)
  show "fst (turnOnRoomLights rt n brightness w)
          = Threw (Error (''Room with name '' @ quoted n @ '' not found''))
      \<and> updates (snd (turnOnRoomLights rt n brightness w)) = updates w
      \<and> fst (turnOffRoomLights rt n w)
          = Threw (Error (''Room with name '' @ quoted n @ '' not found''))
      \<and> updates (snd (turnOffRoomLights rt n w)) = updates w"
    by (simp add: on off u)
qed

theorem no_match_no_update_witness:
  "fst (fetch sample_runtime ''/resource/light'' sample_world) = Returned [kitchen, unnamed_light, bath]
   \<and> fst (fetch sample_runtime ''/resource/room'' sample_world) = Returned [office, lounge]
   \<and> fst (turnLightOn sample_runtime ''Attic'' None sample_world)
       = Threw (Error (''Light with name '' @ quoted ''Attic'' @ '' not found''))
   \<and> updates (snd (turnLightOn sample_runtime ''Attic'' None sample_world)) = []
   \<and> fst (turnLightOff sample_runtime ''Attic'' sample_world)
       = Threw (Error (''Light with name '' @ quoted ''Attic'' @ '' not found''))
   \<and> updates (snd (turnLightOff sample_runtime ''Attic'' sample_world)) = []
   \<and> fst (turnOnRoomLights sample_runtime ''Attic'' None sample_world)
       = Threw (Error (''Room with name '' @ quoted ''Attic'' @ '' not found''))
   \<and> updates (snd (turnOnRoomLights sample_runtime ''Attic'' None sample_world)) = []
   \<and> fst (turnOffRoomLights sample_runtime ''Attic'' sample_world)
       = Threw (Error (''Room with name '' @ quoted ''Attic'' @ '' not found''))
   \<and> updates (snd (turnOffRoomLights sample_runtime ''Attic'' sample_world)) = []"
proof -
  have l: "\<forall>l \<in> set [kitchen, unnamed_light, bath]. metadata_name l \<noteq> Some ''Attic''"
    by (simp add: metadata_name_def kitchen_def unnamed_light_def bath_def)
  have r: "\<forall>r \<in> set [office, lounge].
      map_option (toLowerCase sample_runtime) (metadata_name r)
        \<noteq> Some (toLowerCase sample_runtime ''Attic'')"
    by (simp add: metadata_name_def office_def lounge_def sample_runtime_def lower_examples)
  have e: "updates sample_world = []"
    by (simp add: updates_def sample_world_def)
  note t = no_match_no_update[of sample_runtime sample_world "[kitchen, unnamed_light, bath]"
      "snd (fetch sample_runtime ''/resource/light'' sample_world)" "''Attic''" None
      "[office, lounge]" "snd (fetch sample_runtime ''/resource/room'' sample_world)"]
  have a: "fetch sample_runtime ''/resource/light'' sample_world
      = (Returned [kitchen, unnamed_light, bath],
         snd (fetch sample_runtime ''/resource/light'' sample_world))"
    by (rule pair_fst[OF sample_fetch_lights])
  have b: "fetch sample_runtime ''/resource/room'' sample_world
      = (Returned [office, lounge], snd (fetch sample_runtime ''/resource/room'' sample_world))"
    by (rule pair_fst[OF sample_fetch_rooms])
  show ?thesis
    using t[THEN conjunct1, THEN mp, OF conjI[OF a l]]
      t[THEN conjunct2, THEN mp, OF conjI[OF b r]] sample_fetch_lights sample_fetch_rooms
    by (simp add: e)
qed

section \<open>The tool handlers\<close>

text \<open>
  Claim C2. Whenever the service call of the \<^verbatim>\<open>turnLightOff\<close> tool succeeds, the
  handler answers \<^verbatim>\<open>Successfully turned on light: \<close> followed by the name: the text
  of the turn-on tool.
\<close>

theorem tool_turnLightOff_success_text:
  assumes "fst (turnLightOff rt n w) = Returned u"
  shows "fst (tool_turnLightOff rt n w) = Returned (''Successfully turned on light: '' @ n)"
  using assms
  by (cases "turnLightOff rt n w")
     (simp add: tool_turnLightOff_def try_catch_def await_def return_def)

theorem tool_turnLightOff_success_text_witness:
  "fst (turnLightOff sample_runtime ''Kitchen'' sample_world) = Returned ()
   \<and> fst (tool_turnLightOff sample_runtime ''Kitchen'' sample_world)
       = Returned ''Successfully turned on light: Kitchen''"
  using tool_turnLightOff_success_text[OF sample_turnLightOff] sample_turnLightOff by simp

section \<open>Credentials\<close>

text \<open>
  Saving and loading again does not always give the credentials back: credentials
  with empty fields are written and parsed, and then rejected by the check in
  \<^verbatim>\<open>readCredentialsFromFile\<close>; and when the file cannot be written, saving ends
  without an error and there is nothing to load.
\<close>

theorem save_then_load_loses_credentials:
  "files (snd (saveCredentialsToFile sample_runtime empty_credentials sample_world)) ''/etc/hue.json''
     = Some (JSON_stringify sample_runtime (credentials_object empty_credentials))
   \<and> JSON_parse sample_runtime (JSON_stringify sample_runtime (credentials_object empty_credentials))
     = Some (credentials_object empty_credentials)
   \<and> fst (readCredentialsFromFile sample_runtime
            (snd (saveCredentialsToFile sample_runtime empty_credentials sample_world)))
     = Returned None
   \<and> fst (readCredentialsFromFile sample_runtime
            (snd (saveCredentialsToFile sample_runtime sample_credentials read_only_world)))
     = Returned None"
  by (simp add: credential_defs json_sample_defs empty_credentials_def sample_credentials_def
        read_only_world_def sample_runtime_def sample_world_def sample_env_def)

text \<open>
  Claim C6, amended. For every credentials value with a truthy (non-empty) username
  and client key, when the directory and the file can be written and the file can be
  read, and \<^verbatim>\<open>JSON.parse\<close> gives back what \<^verbatim>\<open>JSON.stringify\<close> was given, saving
  the credentials and then loading from the same path yields the same credentials.
\<close>

theorem save_then_load:
  assumes "truthy (username C)" and "truthy (clientKey C)"
    and "\<not> unwritable w (path_dirname rt (getCredentialsPath rt w))"
    and "\<not> unwritable w (getCredentialsPath rt w)"
    and "\<not> unreadable w (getCredentialsPath rt w)"
    and "JSON_parse rt (JSON_stringify rt (credentials_object C)) = Some (credentials_object C)"
  shows "fst (readCredentialsFromFile rt (snd (saveCredentialsToFile rt C w))) = Returned (Some C)"
proof -
  let ?p = "getCredentialsPath rt w"
  have saved: "snd (saveCredentialsToFile rt C w)
      = w\<lparr>files := (files w)(?p := Some (JSON_stringify rt (credentials_object C)))\<rparr>"
    using assms(3,4) by (simp add: saveCredentialsToFile_def fs_mkdir_def fs_writeFile_def Let_def)
  have p: "getCredentialsPath rt (w\<lparr>files := (files w)(?p := Some (JSON_stringify rt (credentials_object C)))\<rparr>) = ?p"
    by (simp add: getCredentialsPath_def)
  have r: "fs_readFile (w\<lparr>files := (files w)(?p := Some (JSON_stringify rt (credentials_object C)))\<rparr>) ?p
      = Inr (JSON_stringify rt (credentials_object C))"
    using assms(5) by (simp add: fs_readFile_def)
  have "\<lparr>username = username C, clientKey = clientKey C\<rparr> = C" by simp
  then show ?thesis
    unfolding saved
    using assms(1,2)
    by (simp add: readCredentialsFromFile_def p r assms(6) Let_def)
       (simp add: credentials_object_def)
qed

theorem save_then_load_witness:
  "truthy (username sample_credentials) \<and> truthy (clientKey sample_credentials)
   \<and> JSON_parse sample_runtime (JSON_stringify sample_runtime (credentials_object sample_credentials))
       = Some (credentials_object sample_credentials)
   \<and> fst (readCredentialsFromFile sample_runtime
            (snd (saveCredentialsToFile sample_runtime sample_credentials sample_world)))
       = Returned (Some sample_credentials)"
proof -
  have a: "truthy (username sample_credentials)" "truthy (clientKey sample_credentials)"
    by (simp_all add: sample_credentials_def)
  have b: "\<not> unwritable sample_world
              (path_dirname sample_runtime (getCredentialsPath sample_runtime sample_world))"
    "\<not> unwritable sample_world (getCredentialsPath sample_runtime sample_world)"
    "\<not> unreadable sample_world (getCredentialsPath sample_runtime sample_world)"
    by (simp_all add: sample_world_def)
  have c: "JSON_parse sample_runtime
             (JSON_stringify sample_runtime (credentials_object sample_credentials))
       = Some (credentials_object sample_credentials)"
    by (simp add: sample_runtime_def json_sample_defs credentials_object_def sample_credentials_def)
  show ?thesis
    using save_then_load[OF a b c] a c by simp
qed

text \<open>
  Claim C7. When the credentials file is missing, or is there and is not well-formed
  JSON, loading returns \<^verbatim>\<open>null\<close> and throws nothing.
\<close>

theorem load_missing_or_malformed:
  assumes "files w (getCredentialsPath rt w) = None
      \<or> (\<exists>content. files w (getCredentialsPath rt w) = Some content
            \<and> JSON_parse rt content = None)"
  shows "readCredentialsFromFile rt w = (Returned None, w)"
  using assms
  by (auto simp: readCredentialsFromFile_def fs_readFile_def Let_def)

theorem load_missing_or_malformed_witness:
  "files sample_world (getCredentialsPath sample_runtime sample_world) = None
   \<and> fst (readCredentialsFromFile sample_runtime sample_world) = Returned None
   \<and> files broken_file_world (getCredentialsPath sample_runtime broken_file_world)
       = Some ''{username: ''
   \<and> JSON_parse sample_runtime ''{username: '' = None
   \<and> fst (readCredentialsFromFile sample_runtime broken_file_world) = Returned None"
proof -
  have a: "files sample_world (getCredentialsPath sample_runtime sample_world) = None"
    by (simp add: sample_world_def)
  have b: "files broken_file_world (getCredentialsPath sample_runtime broken_file_world)
       = Some ''{username: ''"
    by (simp add: broken_file_world_def)
  have c: "JSON_parse sample_runtime ''{username: '' = None"
    by (simp add: sample_runtime_def json_sample_defs)
  have "fst (readCredentialsFromFile sample_runtime sample_world) = Returned None"
    using load_missing_or_malformed[of sample_world sample_runtime] a by simp
  moreover have "fst (readCredentialsFromFile sample_runtime broken_file_world) = Returned None"
    using load_missing_or_malformed[of broken_file_world sample_runtime] b c by simp
  ultimately show ?thesis using a b c by simp
qed

lemma credentials_of_response_same:
  assumes "credentials_of_response response v = (Returned c, v')"
  shows "clientKey c = username c"
  using assms
  by (auto simp: credentials_of_response_def throw_def return_def
      split: list.splits option.splits if_splits)

text \<open>
  Claim C10. Every credentials value that \<^verbatim>\<open>createNewHueUser\<close> returns has its
  client key equal to its username.
\<close>

theorem bootstrap_clientKey_is_username:
  assumes "createNewHueUser rt w = (Returned c, w')"
  shows "clientKey c = username c"
proof -
  from assms obtain u w0 where
    body: "(if \<not> truthy_str (bridgeIp (hueService w0))
       then throw (Error ''Cannot create credentials: Bridge IP not available'') w0
       else
         try_catch
           (await
              (UserClient_createUser rt
                 (new_HueApiClient (the (bridgeIp (hueService w0))) (JString []))
                 ''hue-mcp-server#server'')
              credentials_of_response)
           (\<lambda>e. throw (Error (''Failed to create Hue user: '' @ message e))) w0)
      = (Returned c, w')"
    unfolding createNewHueUser_def by (elim awaitE)
  then have tc: "try_catch
           (await
              (UserClient_createUser rt
                 (new_HueApiClient (the (bridgeIp (hueService w0))) (JString []))
                 ''hue-mcp-server#server'')
              credentials_of_response)
           (\<lambda>e. throw (Error (''Failed to create Hue user: '' @ message e))) w0
      = (Returned c, w')"
    by (simp add: throw_def split: if_splits)
  then have "await
              (UserClient_createUser rt
                 (new_HueApiClient (the (bridgeIp (hueService w0))) (JString []))
                 ''hue-mcp-server#server'')
              credentials_of_response w0 = (Returned c, w')"
    by (rule try_catchE) (simp_all add: throw_def)
  then show ?thesis
    by (elim awaitE) (rule credentials_of_response_same)
qed

theorem bootstrap_clientKey_is_username_witness:
  "fst (createNewHueUser sample_runtime first_start)
     = Returned \<lparr>username = JString ''abc123'', clientKey = JString ''abc123''\<rparr>
   \<and> clientKey \<lparr>username = JString ''abc123'', clientKey = JString ''abc123''\<rparr>
     = username \<lparr>username = JString ''abc123'', clientKey = JString ''abc123''\<rparr>"
proof -
  have a: "fst (createNewHueUser sample_runtime first_start)
     = Returned \<lparr>username = JString ''abc123'', clientKey = JString ''abc123''\<rparr>"
    by (simp add: createNewHueUser_def io_defs sample_runtime_def first_start_def
        new_PhillipsHueService_def UserClient_createUser_def credentials_of_response_def)
  show ?thesis
    using bootstrap_clientKey_is_username[OF pair_fst[OF a]] a by simp
qed

end
